theory Spec2Isabelle
  imports Main "HOL-Library.AList"
begin

section \<open>Python strings and values\<close>

text \<open>
  A Python \<open>str\<close> is a sequence of Unicode code points, so a string is a list of
  code points (\<open>len\<close> is \<open>length\<close>). \<open>asc\<close> embeds an ASCII literal of the source.
\<close>

type_synonym pystr = "nat list"

definition asc :: "string \<Rightarrow> pystr" where
  "asc s = map of_char s"

text \<open>
  The code points that \<open>str.isspace\<close>, \<open>str.strip()\<close> and \<open>str.split()\<close> treat as
  whitespace (CPython's \<open>_PyUnicode_IsWhitespace\<close>).
\<close>

definition isspace_ch :: "nat \<Rightarrow> bool" where
  "isspace_ch c \<longleftrightarrow>
     (9 \<le> c \<and> c \<le> 13) \<or> (28 \<le> c \<and> c \<le> 32) \<or> c = 133 \<or> c = 160 \<or> c = 5760 \<or>
     (8192 \<le> c \<and> c \<le> 8202) \<or> c = 8232 \<or> c = 8233 \<or> c = 8239 \<or> c = 8287 \<or> c = 12288"

text \<open>\<open>s.strip()\<close>\<close>

definition strip :: "pystr \<Rightarrow> pystr" where
  "strip s = rev (dropWhile isspace_ch (rev (dropWhile isspace_ch s)))"

text \<open>\<open>s.split()\<close>: the maximal runs of non-whitespace, in order.\<close>

fun split_ws :: "pystr \<Rightarrow> pystr \<Rightarrow> pystr list" where
  "split_ws cur [] = (if cur = [] then [] else [cur])"
| "split_ws cur (c # cs) =
     (if isspace_ch c then (if cur = [] then split_ws [] cs else cur # split_ws [] cs)
      else split_ws (cur @ [c]) cs)"

definition split :: "pystr \<Rightarrow> pystr list" where
  "split s = split_ws [] s"

text \<open>\<open>s.split(sep)\<close> for a one-character separator; never the empty list.\<close>

fun split_on :: "nat \<Rightarrow> pystr \<Rightarrow> pystr \<Rightarrow> pystr list" where
  "split_on sep cur [] = [cur]"
| "split_on sep cur (c # cs) =
     (if c = sep then cur # split_on sep [] cs else split_on sep (cur @ [c]) cs)"

definition split_nl :: "pystr \<Rightarrow> pystr list" where
  "split_nl s = split_on 10 [] s"

text \<open>\<open>'\n'.join(parts)\<close>\<close>

fun join_nl :: "pystr list \<Rightarrow> pystr" where
  "join_nl [] = []"
| "join_nl [p] = p"
| "join_nl (p # q # ps) = p @ [10] @ join_nl (q # ps)"

definition startswith :: "pystr \<Rightarrow> pystr \<Rightarrow> bool" where
  "startswith s p = (take (length p) s = p)"

text \<open>\<open>sub in s\<close>\<close>

fun contains :: "pystr \<Rightarrow> pystr \<Rightarrow> bool" where
  "contains sub [] = (sub = [])"
| "contains sub (c # cs) = (startswith (c # cs) sub \<or> contains sub cs)"

text \<open>\<open>s.replace(c, '')\<close> for a one-character \<open>c\<close>\<close>

definition remove_ch :: "nat \<Rightarrow> pystr \<Rightarrow> pystr" where
  "remove_ch c s = filter (\<lambda>x. x \<noteq> c) s"

text \<open>\<open>s[i:j]\<close> for non-negative \<open>i\<close>, \<open>j\<close>: clamped to the string, empty when \<open>j \<le> i\<close>.\<close>

definition slice :: "pystr \<Rightarrow> nat \<Rightarrow> nat \<Rightarrow> pystr" where
  "slice s i j = take (j - i) (drop i s)"

text \<open>
  The values that flow through the extraction result: \<open>None\<close>, strings, tuples, lists
  and dictionaries (their keys are strings or \<open>None\<close>). A dictionary keeps insertion
  order; assigning to a key that is present replaces the value in place
  (\<open>AList.update\<close>).
\<close>

datatype pyval =
    PNone
  | PStr pystr
  | PTuple "pyval list"
  | PList "pyval list"
  | PDict "(pyval \<times> pyval) list"

text \<open>Truth value of \<open>if result:\<close>\<close>

fun truthy :: "pyval \<Rightarrow> bool" where
  "truthy PNone = False"
| "truthy (PStr s) = (s \<noteq> [])"
| "truthy (PTuple xs) = (xs \<noteq> [])"
| "truthy (PList xs) = (xs \<noteq> [])"
| "truthy (PDict d) = (d \<noteq> [])"

datatype py_error = IndexError | AttributeError | TypeError | ValueError | ReError

section \<open>The interpreter's library, as far as the parsers use it\<close>

text \<open>
  The module \<open>re\<close> and the Unicode tables are not code of the repository. A compiled
  pattern is the function from a text to the list of its matches as \<open>finditer\<close> yields
  them; \<open>re.search\<close> is the first of them and \<open>re.findall\<close> maps each to its groups.
  \<open>re_compile\<close> is \<open>None\<close> where \<open>re.compile\<close> raises \<open>re.error\<close>.
  \<open>m_groups\<close> are the groups 1..n (\<open>None\<close> for a group that took no part).
\<close>

datatype re_flag = IGNORECASE | MULTILINE | DOTALL

record re_match =
  m_start :: nat
  m_end :: nat
  m_group0 :: pystr
  m_groups :: "pystr option list"
  m_groupdict :: "(pystr \<times> pystr option) list"

type_synonym regex = "pystr \<Rightarrow> re_match list"

record runtime =
  re_compile :: "pystr \<Rightarrow> re_flag set \<Rightarrow> regex option"
  ch_isdigit :: "nat \<Rightarrow> bool"
  py_str :: "pyval \<Rightarrow> pystr"
  py_int :: "pystr \<Rightarrow> int option"

text \<open>\<open>s.isdigit()\<close>: non-empty and every character a digit.\<close>

definition str_isdigit :: "runtime \<Rightarrow> pystr \<Rightarrow> bool" where
  "str_isdigit rt s = (s \<noteq> [] \<and> list_all (ch_isdigit rt) s)"

text \<open>\<open>match.group(k)\<close>: \<open>IndexError\<close> when the pattern has fewer than \<open>k\<close> groups.\<close>

definition group :: "re_match \<Rightarrow> nat \<Rightarrow> py_error + pystr option" where
  "group m k =
     (if k = 0 then Inr (Some (m_group0 m))
      else if k \<le> length (m_groups m) then Inr (m_groups m ! (k - 1))
      else Inl IndexError)"

definition or_empty :: "pystr option \<Rightarrow> pystr" where
  "or_empty g = (case g of None \<Rightarrow> [] | Some s \<Rightarrow> s)"

text \<open>
  One element of \<open>re.findall\<close>: the whole match when the pattern has no group, the
  group when it has one, the tuple of groups otherwise; an absent group is \<open>''\<close>.
\<close>

definition findall_item :: "re_match \<Rightarrow> pyval" where
  "findall_item m =
     (case m_groups m of
        [] \<Rightarrow> PStr (m_group0 m)
      | [g] \<Rightarrow> PStr (or_empty g)
      | gs \<Rightarrow> PTuple (map (\<lambda>g. PStr (or_empty g)) gs))"

definition groupdict :: "re_match \<Rightarrow> pyval" where
  "groupdict m =
     PDict (map (\<lambda>(k, g). (PStr k, case g of None \<Rightarrow> PNone | Some s \<Rightarrow> PStr s))
              (m_groupdict m))"

fun fold_err :: "('a \<Rightarrow> 's \<Rightarrow> py_error + 's) \<Rightarrow> 'a list \<Rightarrow> 's \<Rightarrow> py_error + 's" where
  "fold_err f [] s = Inr s"
| "fold_err f (x # xs) s = (case f x s of Inl e \<Rightarrow> Inl e | Inr s' \<Rightarrow> fold_err f xs s')"

section \<open>\<open>regex_parser\<close>: class \<open>RegexParser\<close>\<close>

record pattern_info =
  pi_pattern :: "pystr option"
  pi_flags :: "pystr list option"

definition flags_of :: "pystr list \<Rightarrow> re_flag set" where
  "flags_of flags_list =
     (if asc ''MULTILINE'' \<in> set flags_list then {MULTILINE} else {}) \<union>
     (if asc ''IGNORECASE'' \<in> set flags_list then {IGNORECASE} else {}) \<union>
     (if asc ''DOTALL'' \<in> set flags_list then {DOTALL} else {})"

text \<open>
  \<open>RegexParser.extract_with_pattern\<close>. The \<open>re.error\<close> of a pattern that does not
  compile is caught inside and the result is \<open>None\<close>.
\<close>

definition extract_with_pattern :: "runtime \<Rightarrow> pystr \<Rightarrow> 'a pattern_info_scheme \<Rightarrow> pyval" where
  "extract_with_pattern rt text pinfo =
     (let pattern = (case pi_pattern pinfo of None \<Rightarrow> [] | Some p \<Rightarrow> p);
          flags_list = (case pi_flags pinfo of None \<Rightarrow> [] | Some f \<Rightarrow> f)
      in if pattern = [] then PNone
         else (case re_compile rt pattern (flags_of flags_list) of
                 None \<Rightarrow> PNone
               | Some rx \<Rightarrow>
                   if contains (asc ''(?P<'') pattern
                   then (case rx text of [] \<Rightarrow> PNone | m # _ \<Rightarrow> groupdict m)
                   else (let matches = map findall_item (rx text)
                         in if matches \<noteq> []
                            then (if length matches = 1 then hd matches else PList matches)
                            else PNone)))"

text \<open>
  The loop of \<open>extract_metadata\<close> and of \<open>extract_technical_params\<close> (the two bodies
  are the same): a field is stored only when its result is truthy.
\<close>

definition field_step ::
  "runtime \<Rightarrow> pystr \<Rightarrow> (pystr \<times> pyval) list \<Rightarrow> pystr \<times> pattern_info \<Rightarrow> (pystr \<times> pyval) list" where
  "field_step rt text acc kp =
     (let result = extract_with_pattern rt text (snd kp)
      in if truthy result then AList.update (fst kp) result acc else acc)"

definition extract_fields ::
  "runtime \<Rightarrow> pystr \<Rightarrow> (pystr \<times> pattern_info) list option \<Rightarrow> (pystr \<times> pyval) list" where
  "extract_fields rt text group_spec =
     (case group_spec of None \<Rightarrow> [] | Some fs \<Rightarrow> foldl (field_step rt text) [] fs)"

section \<open>\<open>RegexParser.extract_table\<close>\<close>

text \<open>
  A table descriptor of the pattern file. A key that the descriptor does not have is
  \<open>None\<close>; \<open>ti_structure\<close> maps row names to pattern descriptors.
\<close>

record table_info =
  ti_table_name :: "pyval option"
  ti_table_number :: "pyval option"
  ti_description :: "pyval option"
  ti_extraction_method :: "pystr option"
  ti_structure :: "(pystr \<times> pattern_info) list option"
  ti_pattern :: "pystr option"
  ti_flags :: "pystr list option"
  ti_header_pattern :: "pystr option"
  ti_row_names :: "pyval option"
  ti_value_patterns :: "(pystr \<times> pystr) list option"

text \<open>
  The dictionary \<open>table_data\<close>: its first six keys are always there, the others only
  when a strategy has assigned them.
\<close>

record table_data =
  td_table_name :: pyval
  td_table_number :: pyval
  td_description :: pyval
  td_columns :: pyval
  td_rows :: pyval
  td_data :: pyval
  td_raw_data :: "pyval option"
  td_raw_text :: "pyval option"
  td_headers :: "pyval option"
  td_values :: "pyval option"
  td_distances_mm :: "pyval option"
  td_min_hrc :: "pyval option"
  td_max_hrc :: "pyval option"

definition base_table :: "table_info \<Rightarrow> table_data" where
  "base_table ti =
     \<lparr> td_table_name = (case ti_table_name ti of None \<Rightarrow> PStr (asc ''unknown'') | Some v \<Rightarrow> v),
       td_table_number = (case ti_table_number ti of None \<Rightarrow> PStr [] | Some v \<Rightarrow> v),
       td_description = (case ti_description ti of None \<Rightarrow> PStr [] | Some v \<Rightarrow> v),
       td_columns = PList [], td_rows = PDict [], td_data = PDict [],
       td_raw_data = None, td_raw_text = None, td_headers = None, td_values = None,
       td_distances_mm = None, td_min_hrc = None, td_max_hrc = None \<rparr>"

text \<open>The descriptor \<open>{'pattern': table_info['pattern'], 'flags': table_info.get('flags', [])}\<close>\<close>

definition table_pattern :: "table_info \<Rightarrow> pattern_info" where
  "table_pattern ti =
     \<lparr> pi_pattern = ti_pattern ti,
       pi_flags = Some (case ti_flags ti of None \<Rightarrow> [] | Some f \<Rightarrow> f) \<rparr>"

text \<open>\<open>x if isinstance(x, str) else str(x)\<close>\<close>

definition text_of :: "runtime \<Rightarrow> pyval \<Rightarrow> pystr" where
  "text_of rt v = (case v of PStr s \<Rightarrow> s | _ \<Rightarrow> py_str rt v)"

text \<open>\<open>result.strip().split('\n')\<close>: \<open>AttributeError\<close> when the result is not a string.\<close>

definition strip_lines :: "pyval \<Rightarrow> py_error + pystr list" where
  "strip_lines result =
     (case result of PStr s \<Rightarrow> Inr (split_nl (strip s)) | _ \<Rightarrow> Inl AttributeError)"

subsection \<open>Method 1: \<open>structured\<close>\<close>

text \<open>The inner loop over \<open>row_text.split()\<close>; \<open>[1085]\<close> is the Cyrillic letter en.\<close>

definition keep_value :: "runtime \<Rightarrow> pystr \<Rightarrow> bool" where
  "keep_value rt val =
     (case val of [] \<Rightarrow> False | c # _ \<Rightarrow> ch_isdigit rt c \<or> startswith val [1085])"

definition row_values :: "runtime \<Rightarrow> pystr \<Rightarrow> pystr list" where
  "row_values rt row_text = filter (keep_value rt) (map strip (split row_text))"

definition structured_row ::
  "runtime \<Rightarrow> pystr \<Rightarrow> (pystr \<times> pattern_info) list \<Rightarrow> (pyval \<times> pyval) list \<Rightarrow> pystr
     \<Rightarrow> (pyval \<times> pyval) list" where
  "structured_row rt text structure rows row_name =
     (case map_of structure row_name of
        None \<Rightarrow> rows
      | Some pinfo \<Rightarrow>
          (let row_result = extract_with_pattern rt text pinfo
           in if truthy row_result
              then AList.update (PStr row_name)
                     (PList (map PStr (row_values rt (text_of rt row_result)))) rows
              else rows))"

definition structured_columns ::
  "runtime \<Rightarrow> pystr \<Rightarrow> (pystr \<times> pattern_info) list \<Rightarrow> pyval" where
  "structured_columns rt text structure =
     (case map_of structure (asc ''elements'') of
        None \<Rightarrow> PList []
      | Some pinfo \<Rightarrow>
          (let elements_result = extract_with_pattern rt text pinfo
           in if truthy elements_result
              then PList (map PStr
                     (map strip (filter (\<lambda>e. strip e \<noteq> []) (split (text_of rt elements_result)))))
              else PList []))"

definition table_structured ::
  "runtime \<Rightarrow> pystr \<Rightarrow> (pystr \<times> pattern_info) list \<Rightarrow> table_data \<Rightarrow> table_data" where
  "table_structured rt text structure td =
     td \<lparr> td_columns := structured_columns rt text structure,
          td_rows := PDict (foldl (structured_row rt text structure) []
                       [asc ''recommended'', asc ''certificate'', asc ''espz'']) \<rparr>"

subsection \<open>Method 2: \<open>simple\<close>\<close>

definition table_simple :: "runtime \<Rightarrow> pystr \<Rightarrow> table_info \<Rightarrow> table_data \<Rightarrow> table_data" where
  "table_simple rt text ti td =
     (let result = extract_with_pattern rt text (table_pattern ti)
      in if truthy result
         then (case result of
                 PTuple xs \<Rightarrow> td \<lparr> td_raw_data := Some (PList xs) \<rparr>
               | _ \<Rightarrow> td \<lparr> td_raw_data := Some result \<rparr>)
         else td)"

subsection \<open>Method 3: \<open>structured_table_2\<close>\<close>

text \<open>\<open>lines[i]\<close> for a non-negative index\<close>

definition item :: "'a list \<Rightarrow> nat \<Rightarrow> py_error + 'a" where
  "item xs i = (if i < length xs then Inr (xs ! i) else Inl IndexError)"

text \<open>\<open>[lines[i].strip(), lines[j].strip()]\<close>\<close>

definition pair_at :: "pystr list \<Rightarrow> nat \<Rightarrow> nat \<Rightarrow> py_error + pyval" where
  "pair_at lines i j =
     (case item lines i of
        Inl e \<Rightarrow> Inl e
      | Inr a \<Rightarrow> (case item lines j of
                   Inl e \<Rightarrow> Inl e
                 | Inr b \<Rightarrow> Inr (PList [PStr (strip a), PStr (strip b)])))"

definition table_2 :: "runtime \<Rightarrow> pystr \<Rightarrow> table_info \<Rightarrow> table_data \<Rightarrow> py_error + table_data" where
  "table_2 rt text ti td =
     (let result = extract_with_pattern rt text (table_pattern ti)
      in if truthy result
         then (case strip_lines result of
                 Inl e \<Rightarrow> Inl e
               | Inr lines \<Rightarrow>
                   if length lines \<ge> 6
                   then (let headers = PList [PStr (strip (lines ! 0)), PStr (strip (lines ! 1)),
                                             PStr (strip (lines ! 2))]
                         in case pair_at lines 3 4 of
                              Inl e \<Rightarrow> Inl e
                            | Inr p1 \<Rightarrow>
                                (case pair_at lines 5 6 of
                                   Inl e \<Rightarrow> Inl e
                                 | Inr p2 \<Rightarrow>
                                     (case pair_at lines 7 8 of
                                        Inl e \<Rightarrow> Inl e
                                      | Inr p3 \<Rightarrow>
                                          Inr (td \<lparr> td_headers := Some headers,
                                                    td_values := Some (PList [p1, p2, p3]) \<rparr>))))
                   else Inr (td \<lparr> td_raw_text := Some result \<rparr>))
         else Inr td)"

subsection \<open>Method 4: \<open>key_value_table\<close>\<close>

text \<open>
  The \<open>while i < len(lines)\<close> loop; \<open>[78]\<close> is the Latin letter N and \<open>[1044]\<close> the
  Cyrillic letter De.
\<close>

function kv_loop :: "pystr list \<Rightarrow> nat \<Rightarrow> (pyval \<times> pyval) list \<Rightarrow> (pyval \<times> pyval) list" where
  "kv_loop lines i data =
     (if i < length lines
      then (if i + 1 < length lines
            then (let key = lines ! i; val = lines ! (i + 1)
                  in if \<not> startswith val [78] \<and> \<not> startswith val [1044]
                     then kv_loop lines (i + 2) (AList.update (PStr key) (PStr val) data)
                     else kv_loop lines (i + 1) data)
            else kv_loop lines (i + 1) data)
      else data)"
  by pat_completeness auto
termination
  by (relation "measure (\<lambda>(lines, i, data). length lines - i)") auto

declare kv_loop.simps [simp del]

text \<open>\<open>[line.strip() for line in result.strip().split('\n') if line.strip()]\<close>\<close>

definition nonempty_lines :: "pystr \<Rightarrow> pystr list" where
  "nonempty_lines s = map strip (filter (\<lambda>line. strip line \<noteq> []) (split_nl (strip s)))"

definition table_key_value ::
  "runtime \<Rightarrow> pystr \<Rightarrow> table_info \<Rightarrow> table_data \<Rightarrow> py_error + table_data" where
  "table_key_value rt text ti td =
     (let result = extract_with_pattern rt text (table_pattern ti)
      in if truthy result
         then (case result of
                 PStr s \<Rightarrow> Inr (td \<lparr> td_data := PDict (kv_loop (nonempty_lines s) 0 []) \<rparr>)
               | _ \<Rightarrow> Inl AttributeError)
         else Inr td)"

subsection \<open>Method 5: \<open>structured_table_4\<close>\<close>

text \<open>
  The test that a line starts the data: only digits once \<open>+ , . -\<close> and blanks are
  taken out, or (evaluated only when that fails) a bare integer of at least 85.
\<close>

definition t4_is_data :: "runtime \<Rightarrow> pystr \<Rightarrow> py_error + bool" where
  "t4_is_data rt line =
     (if str_isdigit rt
           (remove_ch 32 (remove_ch 45 (remove_ch 46 (remove_ch 44 (remove_ch 43 line)))))
      then Inr True
      else if str_isdigit rt line
           then (case py_int rt line of None \<Rightarrow> Inl ValueError | Some n \<Rightarrow> Inr (n \<ge> 85))
           else Inr False)"

text \<open>The loop state is \<open>(data_started, header_lines, table_data['rows'])\<close>.\<close>

definition t4_step ::
  "runtime \<Rightarrow> pystr \<Rightarrow> bool \<times> pystr list \<times> pystr list list
     \<Rightarrow> py_error + (bool \<times> pystr list \<times> pystr list list)" where
  "t4_step rt raw st =
     (case st of (started, header_lines, rows) \<Rightarrow>
        (let line = strip raw
         in if line = [] then Inr st
            else (case t4_is_data rt line of
                    Inl e \<Rightarrow> Inl e
                  | Inr d \<Rightarrow>
                      (let started' = (started \<or> d)
                       in if \<not> started' then Inr (started', header_lines @ [line], rows)
                          else (let parts = split line
                                in if length parts \<ge> 3
                                   then Inr (started', header_lines, rows @ [parts])
                                   else Inr (started', header_lines, rows))))))"

definition table_4 :: "runtime \<Rightarrow> pystr \<Rightarrow> table_info \<Rightarrow> table_data \<Rightarrow> py_error + table_data" where
  "table_4 rt text ti td =
     (let result = extract_with_pattern rt text (table_pattern ti)
      in if truthy result
         then (case strip_lines result of
                 Inl e \<Rightarrow> Inl e
               | Inr lines \<Rightarrow>
                   (case fold_err (t4_step rt) lines (False, [], []) of
                      Inl e \<Rightarrow> Inl e
                    | Inr (started, header_lines, rows) \<Rightarrow>
                        Inr (td \<lparr> td_headers := Some (PList (map PStr header_lines)),
                                  td_rows := PList (map (\<lambda>parts. PList (map PStr parts)) rows) \<rparr>)))
         else Inr td)"

subsection \<open>Method 6: \<open>structured_table_5\<close>\<close>

datatype t5_target = Distances | Min_values | Max_values

text \<open>\<open>part.replace(',', '').replace('.', '').isdigit()\<close>\<close>

definition is_number :: "runtime \<Rightarrow> pystr \<Rightarrow> bool" where
  "is_number rt part = str_isdigit rt (remove_ch 46 (remove_ch 44 part))"

text \<open>
  The loop state is \<open>(current_list, distances, min_values, max_values)\<close>, with
  \<open>current_list\<close> the name of the list it aliases.
\<close>

definition t5_step ::
  "runtime \<Rightarrow> (t5_target option \<times> pystr list \<times> pystr list \<times> pystr list) \<Rightarrow> pystr
     \<Rightarrow> (t5_target option \<times> pystr list \<times> pystr list \<times> pystr list)" where
  "t5_step rt st raw =
     (case st of (cur, distances, min_values, max_values) \<Rightarrow>
        (let line = strip raw
         in if contains [1055, 1086, 1083, 1086, 1089, 1072, 32, 1087, 1088, 1086, 1082, 1072,
                         1083, 1080, 1074, 1072, 1077, 1084, 1086, 1089, 1090, 1080] line
            then st
            else if line = asc ''MM'' then (Some Distances, distances, min_values, max_values)
            else if line = asc ''min'' then (Some Min_values, distances, min_values, max_values)
            else if line = asc ''HRC'' then st
            else if line = asc ''max'' then (Some Max_values, distances, min_values, max_values)
            else if line \<noteq> [] \<and> cur \<noteq> None
            then (let parts = filter (is_number rt) (split line)
                  in case cur of
                       Some Distances \<Rightarrow> (cur, distances @ parts, min_values, max_values)
                     | Some Min_values \<Rightarrow> (cur, distances, min_values @ parts, max_values)
                     | Some Max_values \<Rightarrow> (cur, distances, min_values, max_values @ parts)
                     | None \<Rightarrow> st)
            else st))"

definition table_5 :: "runtime \<Rightarrow> pystr \<Rightarrow> table_info \<Rightarrow> table_data \<Rightarrow> py_error + table_data" where
  "table_5 rt text ti td =
     (let result = extract_with_pattern rt text (table_pattern ti)
      in if truthy result
         then (case strip_lines result of
                 Inl e \<Rightarrow> Inl e
               | Inr lines \<Rightarrow>
                   (case foldl (t5_step rt) (None, [], [], []) lines of
                      (cur, distances, min_values, max_values) \<Rightarrow>
                        Inr (td \<lparr> td_data := PDict [],
                                  td_distances_mm := Some (PList (map PStr distances)),
                                  td_min_hrc := Some (PList (map PStr min_values)),
                                  td_max_hrc := Some (PList (map PStr max_values)) \<rparr>)))
         else Inr td)"

subsection \<open>Method 7: \<open>structured_table_6\<close>\<close>

text \<open>The inner loop over the parts of a line; the state is \<open>(current_row, data)\<close>.\<close>

definition t6_part :: "runtime \<Rightarrow> pystr list \<times> pyval list \<Rightarrow> pystr \<Rightarrow> pystr list \<times> pyval list" where
  "t6_part rt st part =
     (case st of (current_row, data) \<Rightarrow>
        if is_number rt part
        then (let current_row' = current_row @ [part]
              in if length current_row' = 2
                 then ([], data @ [PDict [(PStr (asc ''diameter_mm''), PStr (current_row' ! 0)),
                                          (PStr (asc ''compression_degree''),
                                           PStr (current_row' ! 1))]])
                 else (current_row', data))
        else st)"

text \<open>The header words are \<open>Diametr\<close>, \<open>Stepen'\<close>, \<open>prokata\<close>, \<open>obzhatiya\<close> in Cyrillic.\<close>

definition t6_step :: "runtime \<Rightarrow> pystr list \<times> pyval list \<Rightarrow> pystr \<Rightarrow> pystr list \<times> pyval list" where
  "t6_step rt st raw =
     (let line = strip raw
      in if line = [] \<or> line = asc '';'' then st
         else if contains [1044, 1080, 1072, 1084, 1077, 1090, 1088] line
                 \<or> contains [1057, 1090, 1077, 1087, 1077, 1085, 1100] line
                 \<or> contains [1087, 1088, 1086, 1082, 1072, 1090, 1072] line
                 \<or> contains [1086, 1073, 1078, 1072, 1090, 1080, 1103] line
         then st
         else foldl (t6_part rt) st (split line))"

definition table_6 :: "runtime \<Rightarrow> pystr \<Rightarrow> table_info \<Rightarrow> table_data \<Rightarrow> py_error + table_data" where
  "table_6 rt text ti td =
     (let result = extract_with_pattern rt text (table_pattern ti)
      in if truthy result
         then (case strip_lines result of
                 Inl e \<Rightarrow> Inl e
               | Inr lines \<Rightarrow>
                   Inr (td \<lparr> td_data := PList (snd (foldl (t6_step rt) ([], []) lines)) \<rparr>))
         else Inr td)"

subsection \<open>Method 8: \<open>text_block\<close>\<close>

definition table_text_block :: "runtime \<Rightarrow> pystr \<Rightarrow> table_info \<Rightarrow> table_data \<Rightarrow> table_data" where
  "table_text_block rt text ti td =
     (let result = extract_with_pattern rt text (table_pattern ti)
      in if truthy result then td \<lparr> td_raw_text := Some (PStr (text_of rt result)) \<rparr> else td)"

subsection \<open>The old method: \<open>header_pattern\<close>, \<open>row_names\<close>, \<open>value_patterns\<close>\<close>

definition old_columns :: "runtime \<Rightarrow> pystr \<Rightarrow> table_info \<Rightarrow> pyval" where
  "old_columns rt text ti =
     (case ti_header_pattern ti of
        None \<Rightarrow> PList []
      | Some hp \<Rightarrow>
          (let header_result =
                 extract_with_pattern rt text \<lparr> pi_pattern = Some hp, pi_flags = None \<rparr>
           in if truthy header_result
              then (case header_result of PList xs \<Rightarrow> header_result | _ \<Rightarrow> PList [header_result])
              else PList []))"

definition old_value ::
  "runtime \<Rightarrow> pystr \<Rightarrow> (pyval \<times> pyval) list \<Rightarrow> pystr \<times> pystr \<Rightarrow> (pyval \<times> pyval) list" where
  "old_value rt text data kv =
     (let result = extract_with_pattern rt text \<lparr> pi_pattern = Some (snd kv), pi_flags = None \<rparr>
      in if truthy result then AList.update (PStr (fst kv)) result data else data)"

definition table_old :: "runtime \<Rightarrow> pystr \<Rightarrow> table_info \<Rightarrow> table_data \<Rightarrow> table_data" where
  "table_old rt text ti td =
     td \<lparr> td_columns := old_columns rt text ti,
          td_rows := (case ti_row_names ti of None \<Rightarrow> PDict [] | Some r \<Rightarrow> r),
          td_data := (case ti_value_patterns ti of
                        None \<Rightarrow> PDict []
                      | Some vps \<Rightarrow> PDict (foldl (old_value rt text) [] vps)) \<rparr>"

subsection \<open>The dispatch\<close>

definition extract_table :: "runtime \<Rightarrow> pystr \<Rightarrow> table_info \<Rightarrow> py_error + table_data" where
  "extract_table rt text ti =
     (let table_data = base_table ti;
          extraction_method =
            (case ti_extraction_method ti of None \<Rightarrow> asc ''structured'' | Some m \<Rightarrow> m)
      in if extraction_method = asc ''structured'' \<and> ti_structure ti \<noteq> None
         then Inr (table_structured rt text (the (ti_structure ti)) table_data)
         else if extraction_method = asc ''simple'' \<and> ti_pattern ti \<noteq> None
         then Inr (table_simple rt text ti table_data)
         else if extraction_method = asc ''structured_table_2'' \<and> ti_pattern ti \<noteq> None
         then table_2 rt text ti table_data
         else if extraction_method = asc ''key_value_table'' \<and> ti_pattern ti \<noteq> None
         then table_key_value rt text ti table_data
         else if extraction_method = asc ''structured_table_4'' \<and> ti_pattern ti \<noteq> None
         then table_4 rt text ti table_data
         else if extraction_method = asc ''structured_table_5'' \<and> ti_pattern ti \<noteq> None
         then table_5 rt text ti table_data
         else if extraction_method = asc ''structured_table_6'' \<and> ti_pattern ti \<noteq> None
         then table_6 rt text ti table_data
         else if extraction_method = asc ''text_block'' \<and> ti_pattern ti \<noteq> None
         then Inr (table_text_block rt text ti table_data)
         else Inr (table_old rt text ti table_data))"

text \<open>\<open>RegexParser.extract_tables\<close>: the exception of one table ends the loop.\<close>

fun extract_table_list :: "runtime \<Rightarrow> pystr \<Rightarrow> table_info list \<Rightarrow> py_error + table_data list" where
  "extract_table_list rt text [] = Inr []"
| "extract_table_list rt text (ti # tis) =
     (case extract_table rt text ti of
        Inl e \<Rightarrow> Inl e
      | Inr td \<Rightarrow> (case extract_table_list rt text tis of
                    Inl e \<Rightarrow> Inl e
                  | Inr tds \<Rightarrow> Inr (td # tds)))"

section \<open>\<open>RegexParser.extract_sections\<close> and \<open>parse_document\<close>\<close>

record section_info = pattern_info +
  si_extraction_method :: "pystr option"
  si_subsection_pattern :: "pystr option"

text \<open>
  The body of the loop over the subsection matches: \<open>match.group(k).strip()\<close> raises
  \<open>IndexError\<close> when the pattern has no group \<open>k\<close> and \<open>AttributeError\<close> when the
  group is \<open>None\<close>; nothing in \<open>extract_sections\<close> catches them.
\<close>

definition group_strip :: "re_match \<Rightarrow> nat \<Rightarrow> py_error + pystr" where
  "group_strip m k =
     (case group m k of
        Inl e \<Rightarrow> Inl e
      | Inr None \<Rightarrow> Inl AttributeError
      | Inr (Some g) \<Rightarrow> Inr (strip g))"

definition subsection_step ::
  "re_match \<Rightarrow> (pyval \<times> pyval) list \<Rightarrow> py_error + (pyval \<times> pyval) list" where
  "subsection_step m subsections =
     (case group_strip m 1 of
        Inl e \<Rightarrow> Inl e
      | Inr subsection_number \<Rightarrow>
          (case group_strip m 2 of
             Inl e \<Rightarrow> Inl e
           | Inr subsection_content \<Rightarrow>
               Inr (AList.update (PStr subsection_number) (PStr subsection_content) subsections)))"

text \<open>
  The body of the loop over the sections. \<open>re.finditer(subsection_pattern, result, ...)\<close>
  raises \<open>re.error\<close> for a pattern that does not compile and \<open>TypeError\<close> for a
  result that is not a string.
\<close>

definition section_step ::
  "runtime \<Rightarrow> pystr \<Rightarrow> pystr \<times> section_info \<Rightarrow> (pystr \<times> pyval) list
     \<Rightarrow> py_error + (pystr \<times> pyval) list" where
  "section_step rt text kp sections =
     (let section_name = fst kp; pinfo = snd kp;
          extraction_method =
            (case si_extraction_method pinfo of None \<Rightarrow> asc ''simple'' | Some m \<Rightarrow> m);
          result = extract_with_pattern rt text pinfo
      in if \<not> truthy result then Inr sections
         else if extraction_method = asc ''structured_subsections''
                 \<and> si_subsection_pattern pinfo \<noteq> None
         then (case re_compile rt (the (si_subsection_pattern pinfo)) {MULTILINE, DOTALL} of
                 None \<Rightarrow> Inl ReError
               | Some rx \<Rightarrow>
                   (case result of
                      PStr body \<Rightarrow>
                        (case fold_err subsection_step (rx body) [] of
                           Inl e \<Rightarrow> Inl e
                         | Inr subsections \<Rightarrow>
                             if subsections \<noteq> []
                             then Inr (AList.update section_name
                                         (PDict [(PStr (asc ''full_text''), result),
                                                 (PStr (asc ''subsections''), PDict subsections)])
                                         sections)
                             else Inr (AList.update section_name result sections))
                    | _ \<Rightarrow> Inl TypeError))
         else Inr (AList.update section_name result sections))"

definition extract_sections ::
  "runtime \<Rightarrow> pystr \<Rightarrow> (pystr \<times> section_info) list option \<Rightarrow> py_error + (pystr \<times> pyval) list" where
  "extract_sections rt text section_spec =
     (case section_spec of None \<Rightarrow> Inr [] | Some ss \<Rightarrow> fold_err (section_step rt text) ss [])"

text \<open>The pattern file, \<open>self.patterns\<close>: each of its four keys may be missing.\<close>

record patterns =
  pt_metadata :: "(pystr \<times> pattern_info) list option"
  pt_technical_params :: "(pystr \<times> pattern_info) list option"
  pt_sections :: "(pystr \<times> section_info) list option"
  pt_tables :: "table_info list option"

record extraction_result =
  er_metadata :: "(pystr \<times> pyval) list"
  er_technical_params :: "(pystr \<times> pyval) list"
  er_sections :: "(pystr \<times> pyval) list"
  er_tables :: "table_data list"

definition extract_metadata :: "runtime \<Rightarrow> patterns \<Rightarrow> pystr \<Rightarrow> (pystr \<times> pyval) list" where
  "extract_metadata rt self text = extract_fields rt text (pt_metadata self)"

definition extract_technical_params :: "runtime \<Rightarrow> patterns \<Rightarrow> pystr \<Rightarrow> (pystr \<times> pyval) list" where
  "extract_technical_params rt self text = extract_fields rt text (pt_technical_params self)"

definition extract_tables :: "runtime \<Rightarrow> patterns \<Rightarrow> pystr \<Rightarrow> py_error + table_data list" where
  "extract_tables rt self text =
     (case pt_tables self of None \<Rightarrow> Inr [] | Some tis \<Rightarrow> extract_table_list rt text tis)"

text \<open>
  \<open>RegexParser.parse_document\<close>. The object holds the pattern file and no method
  assigns to it, so a run maps the object and the text to a result, or to the exception
  that ends it, and leaves the object as it was.
\<close>

definition parse_document :: "runtime \<Rightarrow> patterns \<Rightarrow> pystr \<Rightarrow> py_error + extraction_result" where
  "parse_document rt self text =
     (let metadata = extract_metadata rt self text;
          technical_params = extract_technical_params rt self text
      in case extract_sections rt text (pt_sections self) of
           Inl e \<Rightarrow> Inl e
         | Inr sections \<Rightarrow>
             (case extract_tables rt self text of
                Inl e \<Rightarrow> Inl e
              | Inr tables \<Rightarrow>
                  Inr \<lparr> er_metadata = metadata, er_technical_params = technical_params,
                        er_sections = sections, er_tables = tables \<rparr>))"

section \<open>\<open>markup_parser\<close>: class \<open>MarkupParser\<close>\<close>

text \<open>
  The methods below read \<open>self.document_text\<close> and \<open>self.document_lines\<close>, which is
  \<open>document_text.split('\n')\<close>; the text is passed and the lines are computed from it.
\<close>

subsection \<open>\<open>_find_by_regex\<close>\<close>

text \<open>\<open>label_part.split(':', 1)\<close> for a label that has a colon (code point 58)\<close>

definition split_colon :: "pystr \<Rightarrow> pystr \<times> pystr" where
  "split_colon s = (takeWhile (\<lambda>c. c \<noteq> 58) s, drop 1 (dropWhile (\<lambda>c. c \<noteq> 58) s))"

text \<open>
  \<open>int(group_num_str.strip()) if group_num_str.strip().isdigit() else 0\<close>; \<open>int\<close>
  raises \<open>ValueError\<close> on what it does not read, and only \<open>re.error\<close> is caught.
\<close>

definition parse_group_num :: "runtime \<Rightarrow> pystr \<Rightarrow> py_error + int" where
  "parse_group_num rt label_part =
     (let group_num_str = snd (split_colon label_part)
      in if str_isdigit rt (strip group_num_str)
         then (case py_int rt (strip group_num_str) of None \<Rightarrow> Inl ValueError | Some n \<Rightarrow> Inr n)
         else Inr 0)"

text \<open>
  The three-way choice made for each match when the label names a group:
  \<open>match.group(group_num)\<close>, else \<open>match.group(1)\<close>, else \<open>match.group(0)\<close>.
\<close>

definition select_group :: "re_match \<Rightarrow> int \<Rightarrow> py_error + pystr option" where
  "select_group m group_num =
     (if m_groups m \<noteq> [] \<and> group_num > 0 \<and> group_num \<le> int (length (m_groups m))
      then group m (nat group_num)
      else if m_groups m \<noteq> [] then group m 1
      else group m 0)"

text \<open>\<open>for match in regex.finditer(self.document_text): results.append(...)\<close>\<close>

fun select_all :: "re_match list \<Rightarrow> int \<Rightarrow> py_error + pystr option list" where
  "select_all [] group_num = Inr []"
| "select_all (m # ms) group_num =
     (case select_group m group_num of
        Inl e \<Rightarrow> Inl e
      | Inr v \<Rightarrow> (case select_all ms group_num of Inl e \<Rightarrow> Inl e | Inr vs \<Rightarrow> Inr (v # vs)))"

text \<open>The line-by-line pass: \<open>regex.search(line)\<close> for every line, in order.\<close>

fun select_lines :: "regex \<Rightarrow> pystr list \<Rightarrow> int \<Rightarrow> py_error + pystr option list" where
  "select_lines regex [] group_num = Inr []"
| "select_lines regex (line # lines) group_num =
     (case regex line of
        [] \<Rightarrow> select_lines regex lines group_num
      | m # _ \<Rightarrow>
          (case select_group m group_num of
             Inl e \<Rightarrow> Inl e
           | Inr v \<Rightarrow> (case select_lines regex lines group_num of
                        Inl e \<Rightarrow> Inl e
                      | Inr vs \<Rightarrow> Inr (v # vs))))"

fun whole_lines :: "regex \<Rightarrow> pystr list \<Rightarrow> pystr option list" where
  "whole_lines regex [] = []"
| "whole_lines regex (line # lines) =
     (case regex line of
        [] \<Rightarrow> whole_lines regex lines
      | m # _ \<Rightarrow> Some (m_group0 m) # whole_lines regex lines)"

text \<open>The line-by-line pass that stops at the first line that matches\<close>

fun first_line :: "regex \<Rightarrow> pystr list \<Rightarrow> pystr option list" where
  "first_line regex [] = []"
| "first_line regex (line # lines) =
     (case regex line of
        [] \<Rightarrow> first_line regex lines
      | m # _ \<Rightarrow> [Some (m_group0 m)])"

text \<open>
  \<open>MarkupParser._find_by_regex\<close>. The list it returns holds strings and, for a group
  that took no part in its match, \<open>None\<close>. A pattern that does not compile gives the
  empty list.
\<close>

definition find_by_regex ::
  "runtime \<Rightarrow> pystr \<Rightarrow> pystr \<Rightarrow> pystr \<Rightarrow> bool \<Rightarrow> py_error + pystr option list" where
  "find_by_regex rt document_text pattern label_part find_all =
     (case re_compile rt pattern {IGNORECASE, MULTILINE, DOTALL} of
        None \<Rightarrow> Inr []
      | Some regex \<Rightarrow>
          if 58 \<in> set label_part
          then (case parse_group_num rt label_part of
                  Inl e \<Rightarrow> Inl e
                | Inr group_num \<Rightarrow>
                    (case select_all (regex document_text) group_num of
                       Inl e \<Rightarrow> Inl e
                     | Inr results \<Rightarrow>
                         if results = []
                         then select_lines regex (split_nl document_text) group_num
                         else Inr results))
          else if find_all
          then (let results = map (\<lambda>m. Some (m_group0 m)) (regex document_text)
                in if results = []
                   then Inr (whole_lines regex (split_nl document_text))
                   else Inr results)
          else (case regex document_text of
                  m # _ \<Rightarrow> Inr [Some (m_group0 m)]
                | [] \<Rightarrow> Inr (first_line regex (split_nl document_text))))"

subsection \<open>\<open>_find_in_document\<close> and \<open>_parse_params\<close>\<close>

text \<open>\<open>' '.join(text.split())\<close>\<close>

fun join_sp :: "pystr list \<Rightarrow> pystr" where
  "join_sp [] = []"
| "join_sp [p] = p"
| "join_sp (p # q # ps) = p @ [32] @ join_sp (q # ps)"

fun find_line :: "pystr \<Rightarrow> pystr list \<Rightarrow> pystr option" where
  "find_line text_normalized [] = None"
| "find_line text_normalized (line # lines) =
     (let line_normalized = join_sp (split line)
      in if text_normalized = line_normalized then Some line_normalized
         else if startswith line_normalized text_normalized then Some text_normalized
         else find_line text_normalized lines)"

definition find_in_document :: "pystr \<Rightarrow> pystr \<Rightarrow> pystr option" where
  "find_in_document document_text text =
     (let text_normalized = join_sp (split text)
      in if contains text_normalized document_text then Some text_normalized
         else find_line text_normalized (split_nl document_text))"

text \<open>\<open>line.index(c)\<close>, used only on lines that hold \<open>c\<close>\<close>

definition index_of :: "nat \<Rightarrow> pystr \<Rightarrow> nat" where
  "index_of c s = length (takeWhile (\<lambda>x. x \<noteq> c) s)"

text \<open>
  The head of the loop body of \<open>_parse_params\<close>: whether the line is a \<open>@REGEX\<close>
  line, its text or pattern, and its label (code points 123 and 125 are the braces).
\<close>

definition param_line :: "pystr \<Rightarrow> bool \<times> pystr \<times> pystr" where
  "param_line line0 =
     (let is_regex = startswith (strip line0) (asc ''@REGEX'');
          line = (if is_regex then strip (drop 6 (strip line0)) else line0);
          text_part = strip (take (index_of 123 line) line);
          label_part = strip (slice line (index_of 123 line + 1) (index_of 125 line))
      in (is_regex, text_part, label_part))"

text \<open>\<open>for value in values[:1]: if value: ...\<close>: only the first value is looked at.\<close>

definition store_first ::
  "pystr \<Rightarrow> pystr option list \<Rightarrow> (pystr \<times> pyval) list \<Rightarrow> (pystr \<times> pyval) list" where
  "store_first label_part vals params =
     (case take 1 vals of
        [Some v] \<Rightarrow>
          if v \<noteq> []
          then (if 58 \<in> set label_part
                then AList.update (strip (fst (split_colon label_part))) (PStr v) params
                else AList.update label_part (PStr v) params)
          else params
      | _ \<Rightarrow> params)"

text \<open>
  The body of the loop of \<open>_parse_params\<close> over the lines of a \<open>[PARAMS]\<close> block; the
  state is \<open>technical_params\<close>.
\<close>

definition params_step ::
  "runtime \<Rightarrow> pystr \<Rightarrow> pystr \<Rightarrow> (pystr \<times> pyval) list \<Rightarrow> py_error + (pystr \<times> pyval) list" where
  "params_step rt document_text line0 params =
     (if 123 \<notin> set line0 \<or> 125 \<notin> set line0 then Inr params
      else
        (case param_line line0 of (is_regex, text_part, label_part) \<Rightarrow>
           (case (if is_regex then find_by_regex rt document_text text_part label_part False
                  else Inr [find_in_document document_text text_part]) of
              Inl e \<Rightarrow> Inl e
            | Inr vals \<Rightarrow> Inr (store_first label_part vals params))))"

definition parse_params ::
  "runtime \<Rightarrow> pystr \<Rightarrow> pystr list \<Rightarrow> (pystr \<times> pyval) list \<Rightarrow> py_error + (pystr \<times> pyval) list" where
  "parse_params rt document_text content params =
     fold_err (params_step rt document_text) content params"

subsection \<open>\<open>_extract_text_between\<close>, \<open>_extract_subsections\<close> and \<open>_parse_section\<close>\<close>

text \<open>The loop of \<open>_extract_text_between\<close>; the state is \<open>(capturing, text_parts)\<close>.\<close>

fun text_between :: "pystr \<Rightarrow> pystr \<Rightarrow> bool \<Rightarrow> pystr list \<Rightarrow> pystr list \<Rightarrow> pystr list" where
  "text_between start_marker end_marker capturing text_parts [] = text_parts"
| "text_between start_marker end_marker capturing text_parts (line # lines) =
     (let line_stripped = strip line
      in if contains start_marker line_stripped
         then text_between start_marker end_marker True text_parts lines
         else if contains end_marker line_stripped \<and> capturing then text_parts
         else if capturing
              then text_between start_marker end_marker capturing (text_parts @ [line]) lines
              else text_between start_marker end_marker capturing text_parts lines)"

definition extract_text_between :: "pystr \<Rightarrow> pystr \<Rightarrow> pystr \<Rightarrow> pystr" where
  "extract_text_between document_text start_marker end_marker =
     join_nl (text_between start_marker end_marker False [] (split_nl document_text))"

text \<open>
  The loop of \<open>_extract_subsections\<close> over \<open>enumerate(matches)\<close>: the body of a
  subsection runs from the end of its match to the start of the next match, or to the
  end of the text, and is stored stripped under \<open>match.group(1)\<close>.
\<close>

fun subsections_loop ::
  "pystr \<Rightarrow> re_match list \<Rightarrow> (pyval \<times> pyval) list \<Rightarrow> py_error + (pyval \<times> pyval) list" where
  "subsections_loop section_text [] subsections = Inr subsections"
| "subsections_loop section_text (m # ms) subsections =
     (case group m 1 of
        Inl e \<Rightarrow> Inl e
      | Inr subsection_num \<Rightarrow>
          (let start_pos = m_end m;
               end_pos = (case ms of [] \<Rightarrow> length section_text | m' # _ \<Rightarrow> m_start m');
               subsection_text = strip (slice section_text start_pos end_pos)
           in subsections_loop section_text ms
                (AList.update (case subsection_num of None \<Rightarrow> PNone | Some l \<Rightarrow> PStr l)
                   (PStr subsection_text) subsections)))"

definition extract_subsections :: "runtime \<Rightarrow> pystr \<Rightarrow> pystr \<Rightarrow> py_error + (pyval \<times> pyval) list" where
  "extract_subsections rt section_text pattern =
     (case re_compile rt pattern {MULTILINE} of
        None \<Rightarrow> Inr []
      | Some regex \<Rightarrow> subsections_loop section_text (regex section_text) [])"

text \<open>The first loop of \<open>_parse_section\<close>: the last directive of each kind wins.\<close>

definition section_markers :: "pystr list \<Rightarrow> pystr option \<times> pystr option \<times> pystr option" where
  "section_markers content =
     foldl (\<lambda>(start_marker, end_marker, subsection_pattern) line.
              if startswith line (asc ''@START:'')
              then (Some (strip (drop 7 line)), end_marker, subsection_pattern)
              else if startswith line (asc ''@END:'')
              then (start_marker, Some (strip (drop 5 line)), subsection_pattern)
              else if startswith line (asc ''@SUBSECTIONS:'')
              then (start_marker, end_marker, Some (strip (drop 13 line)))
              else (start_marker, end_marker, subsection_pattern))
       (None, None, None) content"

text \<open>\<open>if x:\<close> for \<open>x\<close> that is \<open>None\<close> or a string\<close>

definition nonempty :: "pystr option \<Rightarrow> bool" where
  "nonempty x = (case x of None \<Rightarrow> False | Some s \<Rightarrow> s \<noteq> [])"

text \<open>\<open>MarkupParser._parse_section\<close>; the state is the \<open>sections\<close> dictionary of the result.\<close>

definition parse_section ::
  "runtime \<Rightarrow> pystr \<Rightarrow> pystr list \<Rightarrow> pystr \<Rightarrow> (pystr \<times> pyval) list
     \<Rightarrow> py_error + (pystr \<times> pyval) list" where
  "parse_section rt document_text content section_name sections =
     (case section_markers content of
        (start_marker, end_marker, subsection_pattern) \<Rightarrow>
          if nonempty start_marker \<and> nonempty end_marker
          then (let section_text =
                      extract_text_between document_text (the start_marker) (the end_marker)
                in if section_text \<noteq> []
                   then (case (if nonempty subsection_pattern
                               then extract_subsections rt section_text (the subsection_pattern)
                               else Inr []) of
                           Inl e \<Rightarrow> Inl e
                         | Inr subsections \<Rightarrow>
                             Inr (AList.update section_name
                                    (PDict [(PStr (asc ''full_text''), PStr section_text),
                                            (PStr (asc ''subsections''), PDict subsections)])
                                    sections))
                   else Inr sections)
          else Inr sections)"

section \<open>A sample of the library, for closed examples\<close>

text \<open>
  What \<open>re\<close> does on the six patterns that the examples below use:
  \<open>.+\<close> (with \<open>DOTALL\<close> the whole of a non-empty text, without it every maximal
  non-empty run without a newline), \<open>([0-9])\<close>, \<open>([0-9])(#*)\<close>, \<open>#*\<close> (every
  maximal run of \<open>#\<close>, and the empty match at every other position and at the end),
  the digit one followed by the end-of-text anchor (backslash, Z), and that anchor
  alone (the empty match at the end of the text). None of them depends on the flags
  otherwise. No example compiles another pattern, stringifies a value that is not a
  string, or holds a digit outside ASCII.
\<close>

definition plain_match :: "nat \<Rightarrow> nat \<Rightarrow> pystr \<Rightarrow> pystr option list \<Rightarrow> re_match" where
  "plain_match i j whole gs =
     \<lparr> m_start = i, m_end = j, m_group0 = whole, m_groups = gs, m_groupdict = [] \<rparr>"

definition rx_whole :: regex where
  "rx_whole t = (if t = [] then [] else [plain_match 0 (length t) t []])"

fun runs :: "nat \<Rightarrow> pystr \<Rightarrow> pystr \<Rightarrow> re_match list" where
  "runs pos cur [] = (if cur = [] then [] else [plain_match (pos - length cur) pos cur []])"
| "runs pos cur (c # cs) =
     (if c = 10
      then (if cur = [] then runs (pos + 1) [] cs
            else plain_match (pos - length cur) pos cur [] # runs (pos + 1) [] cs)
      else runs (pos + 1) (cur @ [c]) cs)"

definition rx_runs :: regex where
  "rx_runs t = runs 0 [] t"

fun digits_from :: "nat \<Rightarrow> pystr \<Rightarrow> re_match list" where
  "digits_from pos [] = []"
| "digits_from pos (c # cs) =
     (if 48 \<le> c \<and> c \<le> 57
      then plain_match pos (pos + 1) [c] [Some [c]] # digits_from (pos + 1) cs
      else digits_from (pos + 1) cs)"

definition rx_digit :: regex where
  "rx_digit t = digits_from 0 t"

definition is_hash :: "nat \<Rightarrow> bool" where
  "is_hash c = (c = 35)"

function digit_words_from :: "nat \<Rightarrow> pystr \<Rightarrow> re_match list" where
  "digit_words_from pos [] = []"
| "digit_words_from pos (c # cs) =
     (if 48 \<le> c \<and> c \<le> 57
      then (let w = takeWhile is_hash cs
            in plain_match pos (pos + 1 + length w) (c # w) [Some [c], Some w]
               # digit_words_from (pos + 1 + length w) (dropWhile is_hash cs))
      else digit_words_from (pos + 1) cs)"
  by pat_completeness auto
termination
  by (relation "measure (\<lambda>(pos, t). length t)") (auto simp: length_dropWhile_le less_Suc_eq_le)

definition rx_digit_word :: regex where
  "rx_digit_word t = digit_words_from 0 t"

function hashes_from :: "nat \<Rightarrow> pystr \<Rightarrow> re_match list" where
  "hashes_from pos [] = [plain_match pos pos [] []]"
| "hashes_from pos (c # cs) =
     (if c = 35
      then (let w = takeWhile is_hash cs
            in plain_match pos (pos + 1 + length w) (c # w) []
               # hashes_from (pos + 1 + length w) (dropWhile is_hash cs))
      else plain_match pos pos [] [] # hashes_from (pos + 1) cs)"
  by pat_completeness auto
termination
  by (relation "measure (\<lambda>(pos, t). length t)") (auto simp: length_dropWhile_le less_Suc_eq_le)

definition rx_hashes :: regex where
  "rx_hashes t = hashes_from 0 t"

definition rx_one_at_end :: regex where
  "rx_one_at_end t =
     (if t \<noteq> [] \<and> last t = 49 then [plain_match (length t - 1) (length t) [49] []] else [])"

definition rx_end :: regex where
  "rx_end t = [plain_match (length t) (length t) [] []]"

definition sample_compile :: "pystr \<Rightarrow> re_flag set \<Rightarrow> regex option" where
  "sample_compile p fl =
     (if p = asc ''.+'' then Some (if DOTALL \<in> fl then rx_whole else rx_runs)
      else if p = asc ''([0-9])'' then Some rx_digit
      else if p = asc ''([0-9])(#*)'' then Some rx_digit_word
      else if p = asc ''#*'' then Some rx_hashes
      else if p = [49, 92, 90] then Some rx_one_at_end
      else if p = [92, 90] then Some rx_end
      else None)"

definition sample_int :: "pystr \<Rightarrow> int option" where
  "sample_int s =
     (if s \<noteq> [] \<and> list_all (\<lambda>c. 48 \<le> c \<and> c \<le> 57) s
      then Some (foldl (\<lambda>n c. 10 * n + (int c - 48)) 0 s)
      else None)"

definition sample_rt :: runtime where
  "sample_rt =
     \<lparr> re_compile = sample_compile,
       ch_isdigit = (\<lambda>c. 48 \<le> c \<and> c \<le> 57),
       py_str = (\<lambda>v. []),
       py_int = sample_int \<rparr>"

section \<open>Example inputs and the specification's wording\<close>

text \<open>
  A table descriptor with identity fields whose pattern \<open>.+\<close> with \<open>DOTALL\<close>
  captures the whole document, for a given extraction method.
\<close>

definition whole_spec :: "pystr \<Rightarrow> table_info" where
  "whole_spec method =
     \<lparr> ti_table_name = Some (PStr (asc ''t'')), ti_table_number = Some (PStr (asc ''3'')),
       ti_description = None, ti_extraction_method = Some method,
       ti_structure = None, ti_pattern = Some (asc ''.+''), ti_flags = Some [asc ''DOTALL''],
       ti_header_pattern = None, ti_row_names = None, ti_value_patterns = None \<rparr>"

text \<open>The six lines \<open>h1 h2 h3 1 2 3\<close>, one per line.\<close>

definition six_lines :: pystr where
  "six_lines = [104, 49, 10, 104, 50, 10, 104, 51, 10, 49, 10, 50, 10, 51]"

text \<open>The four lines \<open>Ves\<close>, \<open>120\<close>, \<open>Dlina\<close> (both Cyrillic) and \<open>N/A\<close>.\<close>

definition kv_text :: pystr where
  "kv_text = [1042, 1077, 1089, 10, 49, 50, 48, 10, 1044, 1083, 1080, 1085, 1072, 10, 78, 47, 65]"

text \<open>
  The pairing rule in the specification's words: lines are consumed pairwise as key
  and value, unless the would-be value starts with a rejection marker, and then the
  scan advances by one line instead of two.
\<close>

fun kv_pairs_spec :: "pystr list \<Rightarrow> (pyval \<times> pyval) list \<Rightarrow> (pyval \<times> pyval) list" where
  "kv_pairs_spec (k # v # rest) data =
     (if startswith v [78] \<or> startswith v [1044] then kv_pairs_spec (v # rest) data
      else kv_pairs_spec rest (AList.update (PStr k) (PStr v) data))"
| "kv_pairs_spec lines data = data"

text \<open>The row text \<open>0,42 0,25 Rekomend\<close> (the word in Cyrillic).\<close>

definition row_text_example :: pystr where
  "row_text_example =
     [48, 44, 52, 50, 32, 48, 44, 50, 53, 32, 1056, 1077, 1082, 1086, 1084, 1077, 1085, 1076]"

text \<open>A \<open>structured\<close> table whose row \<open>recommended\<close> captures the whole document.\<close>

definition structured_spec :: table_info where
  "structured_spec =
     \<lparr> ti_table_name = Some (PStr (asc ''chemical_composition'')),
       ti_table_number = Some (PStr (asc ''1'')),
       ti_description = None, ti_extraction_method = Some (asc ''structured''),
       ti_structure = Some [(asc ''recommended'',
                             \<lparr> pi_pattern = Some (asc ''.+''), pi_flags = Some [asc ''DOTALL''] \<rparr>)],
       ti_pattern = None, ti_flags = None,
       ti_header_pattern = None, ti_row_names = None, ti_value_patterns = None \<rparr>"

text \<open>
  The choice of the captured value in the specification's words: the whole match when
  the pattern has no group; group 1 when it has a group and the index is not a
  positive index within the group count; group \<open>i\<close> otherwise.
\<close>

definition group_choice_spec :: "re_match \<Rightarrow> int \<Rightarrow> pystr option" where
  "group_choice_spec m i =
     (if m_groups m = [] then Some (m_group0 m)
      else if i \<le> 0 \<or> int (length (m_groups m)) < i then m_groups m ! 0
      else m_groups m ! (nat i - 1))"

text \<open>
  What \<open>finditer\<close> promises of its matches on a text, from position \<open>pos\<close> on: they lie
  in the text, in order, without overlap, and group 0 is the matched piece.
\<close>

fun wf_matches :: "pystr \<Rightarrow> nat \<Rightarrow> re_match list \<Rightarrow> bool" where
  "wf_matches text pos [] = True"
| "wf_matches text pos (m # ms) =
     (pos \<le> m_start m \<and> m_start m \<le> m_end m \<and> m_end m \<le> length text
      \<and> m_group0 m = slice text (m_start m) (m_end m) \<and> wf_matches text (m_end m) ms)"

text \<open>
  The subsection bodies in the specification's words: the body of a label runs from
  the end of its match to the start offset of the next match, or to the end of the
  text for the last one.
\<close>

fun bodies_spec :: "pystr \<Rightarrow> re_match list \<Rightarrow> pystr list" where
  "bodies_spec text [] = []"
| "bodies_spec text (m # ms) =
     slice text (m_end m) (case ms of [] \<Rightarrow> length text | m' # _ \<Rightarrow> m_start m')
       # bodies_spec text ms"

text \<open>
  The concatenation of the specification: the text before the first label, then each
  label's match followed by its body, in order.
\<close>

definition reassemble_spec :: "pystr \<Rightarrow> re_match list \<Rightarrow> pystr list \<Rightarrow> pystr" where
  "reassemble_spec text ms bodies =
     take (case ms of [] \<Rightarrow> length text | m # _ \<Rightarrow> m_start m) text
       @ concat (map (\<lambda>(m, b). m_group0 m @ b) (zip ms bodies))"

text \<open>The label of a match as a dictionary key (\<open>match.group(1)\<close>, which may be \<open>None\<close>).\<close>

definition label_key :: "re_match \<Rightarrow> pyval" where
  "label_key m = (case m_groups m of Some l # _ \<Rightarrow> PStr l | _ \<Rightarrow> PNone)"

text \<open>The section text \<open>1a\<close> newline \<open>2b\<close> and the document \<open>a\<close> newline \<open>b\<close>.\<close>

definition two_subsections :: pystr where
  "two_subsections = [49, 97, 10, 50, 98]"

definition two_lines :: pystr where
  "two_lines = [97, 10, 98]"

text \<open>A pattern file with the one technical parameter \<open>steel_grade\<close>, pattern \<open>.+\<close>.\<close>

definition one_param :: patterns where
  "one_param =
     \<lparr> pt_metadata = None,
       pt_technical_params =
         Some [(asc ''steel_grade'', \<lparr> pi_pattern = Some (asc ''.+''), pi_flags = None \<rparr>)],
       pt_sections = None, pt_tables = None \<rparr>"

text \<open>The markup line \<open>@REGEX ([0-9]) { grade }\<close>.\<close>

definition regex_line :: pystr where
  "regex_line = asc ''@REGEX ([0-9]) { grade }''"

text \<open>The document \<open>1\<close> newline \<open>2\<close> and the pattern of a \<open>1\<close> that ends the text.\<close>

definition one_two :: pystr where
  "one_two = [49, 10, 50]"

definition one_at_end :: pystr where
  "one_at_end = [49, 92, 90]"

text \<open>
  The document \<open>S\<close>, \<open>body\<close>, \<open>E\<close> on three lines, and the \<open>[SECTION]\<close> block with the
  markers \<open>S\<close> and \<open>E\<close> and the subsection pattern \<open>([0-9])\<close>.
\<close>

definition section_doc :: pystr where
  "section_doc = asc ''S'' @ [10] @ asc ''body'' @ [10] @ asc ''E''"

definition section_block :: "pystr list" where
  "section_block = [asc ''@START: S'', asc ''@END: E'', asc ''@SUBSECTIONS: ([0-9])'']"

text \<open>A section of the pattern file whose body is the whole document.\<close>

definition whole_section :: "pystr option \<Rightarrow> pystr option \<Rightarrow> section_info" where
  "whole_section method sub =
     \<lparr> pi_pattern = Some (asc ''.+''), pi_flags = Some [asc ''DOTALL''],
       si_extraction_method = method, si_subsection_pattern = sub \<rparr>"

text \<open>The document \<open>1##2\<close>.\<close>

definition hash_doc :: pystr where
  "hash_doc = [49, 35, 35, 50]"

text \<open>The two matches of \<open>([0-9])\<close> in the section text \<open>1a\<close> newline \<open>2b\<close>.\<close>

definition label_one :: re_match where
  "label_one = plain_match 0 1 [49] [Some [49]]"

definition label_two :: re_match where
  "label_two = plain_match 3 4 [50] [Some [50]]"

text \<open>
  A field whose pattern is the end-of-text anchor (one empty match), a field whose
  pattern \<open>([0-9])\<close> has no match in \<open>ab\<close>, and a field that captures the line.
\<close>

definition empty_field :: pattern_info where
  "empty_field = \<lparr> pi_pattern = Some [92, 90], pi_flags = None \<rparr>"

definition digit_field :: pattern_info where
  "digit_field = \<lparr> pi_pattern = Some (asc ''([0-9])''), pi_flags = None \<rparr>"

definition line_field :: pattern_info where
  "line_field = \<lparr> pi_pattern = Some (asc ''.+''), pi_flags = None \<rparr>"

text \<open>A pattern file with the one metadata field \<open>date\<close>, pattern \<open>#*\<close>.\<close>

definition hash_meta :: patterns where
  "hash_meta =
     \<lparr> pt_metadata = Some [(asc ''date'', \<lparr> pi_pattern = Some (asc ''#*''), pi_flags = None \<rparr>)],
       pt_technical_params = None, pt_sections = None, pt_tables = None \<rparr>"

text \<open>
  \<open>str\<close> of a list of strings as CPython writes it, for strings of printable ASCII
  without quote or backslash: each in single quotes, separated by a comma and a blank,
  in brackets. Every other value is outside this sample and gives the empty string.
\<close>

definition plain_text :: "pystr \<Rightarrow> bool" where
  "plain_text s = list_all (\<lambda>c. 32 \<le> c \<and> c \<le> 126 \<and> c \<noteq> 39 \<and> c \<noteq> 92) s"

fun join_comma :: "pystr list \<Rightarrow> pystr" where
  "join_comma [] = []"
| "join_comma [p] = p"
| "join_comma (p # q # ps) = p @ [44, 32] @ join_comma (q # ps)"

definition str_of_list :: "pyval \<Rightarrow> pystr" where
  "str_of_list v =
     (case v of
        PList xs \<Rightarrow>
          if list_all (\<lambda>x. case x of PStr s \<Rightarrow> plain_text s | _ \<Rightarrow> False) xs
          then [91] @ join_comma (map (\<lambda>x. case x of PStr s \<Rightarrow> [39] @ s @ [39] | _ \<Rightarrow> []) xs) @ [93]
          else []
      | _ \<Rightarrow> [])"

definition repr_rt :: runtime where
  "repr_rt = sample_rt \<lparr> py_str := str_of_list \<rparr>"

text \<open>The document \<open>1 2\<close> newline \<open>3 4\<close>, and a \<open>structured\<close> table whose row \<open>recommended\<close>
  has the pattern \<open>.+\<close> without flags, which matches each of the two lines.\<close>

definition two_rows :: pystr where
  "two_rows = [49, 32, 50, 10, 51, 32, 52]"

definition two_match_spec :: table_info where
  "two_match_spec =
     \<lparr> ti_table_name = Some (PStr (asc ''chemical_composition'')),
       ti_table_number = Some (PStr (asc ''1'')),
       ti_description = None, ti_extraction_method = Some (asc ''structured''),
       ti_structure = Some [(asc ''recommended'', line_field)],
       ti_pattern = None, ti_flags = None,
       ti_header_pattern = None, ti_row_names = None, ti_value_patterns = None \<rparr>"

section \<open>Evaluation and dispatch lemmas\<close>

lemmas lib_defs = asc_def startswith_def strip_def split_def split_nl_def slice_def remove_ch_def
  isspace_ch_def

lemmas sample_defs = sample_rt_def sample_compile_def rx_whole_def rx_runs_def rx_digit_def
  rx_digit_word_def rx_hashes_def rx_one_at_end_def rx_end_def plain_match_def sample_int_def
  is_hash_def

lemmas ewp_defs = extract_with_pattern_def flags_of_def findall_item_def or_empty_def
  groupdict_def table_pattern_def

lemma ewp_whole:
  "t \<noteq> [] \<Longrightarrow> extract_with_pattern sample_rt t (table_pattern (whole_spec method)) = PStr t"
  by (simp add: ewp_defs whole_spec_def sample_defs lib_defs)

lemma extract_table_2:
  "ti_extraction_method ti = Some (asc ''structured_table_2'') \<Longrightarrow> ti_pattern ti \<noteq> None
     \<Longrightarrow> extract_table rt text ti = table_2 rt text ti (base_table ti)"
  by (simp add: extract_table_def asc_def Let_def)

lemma extract_table_key_value:
  "ti_extraction_method ti = Some (asc ''key_value_table'') \<Longrightarrow> ti_pattern ti \<noteq> None
     \<Longrightarrow> extract_table rt text ti = table_key_value rt text ti (base_table ti)"
  by (simp add: extract_table_def asc_def Let_def)

lemma extract_table_structured:
  "ti_extraction_method ti = None \<or> ti_extraction_method ti = Some (asc ''structured'')
     \<Longrightarrow> ti_structure ti = Some structure
     \<Longrightarrow> extract_table rt text ti = Inr (table_structured rt text structure (base_table ti))"
  unfolding extract_table_def Let_def by (erule disjE) simp_all

subsection \<open>Tokens of \<open>split\<close>\<close>

lemma split_ws_tokens:
  "\<forall>c\<in>set cur. \<not> isspace_ch c \<Longrightarrow> t \<in> set (split_ws cur s)
     \<Longrightarrow> t \<noteq> [] \<and> (\<forall>c\<in>set t. \<not> isspace_ch c)"
proof (induction cur s rule: split_ws.induct)
  case (1 cur)
  then show ?case by (cases "cur = []") auto
next
  case (2 cur c cs)
  note clean = "2.prems"(1) and mem = "2.prems"(2)
  show ?case
  proof (cases "isspace_ch c")
    case sp: True
    show ?thesis
    proof (cases "cur = []")
      case True
      with sp mem have "t \<in> set (split_ws [] cs)" by simp
      then show ?thesis using "2.IH"(1)[OF sp True] by simp
    next
      case False
      with sp mem have "t = cur \<or> t \<in> set (split_ws [] cs)" by simp
      then show ?thesis
      proof
        assume "t = cur" with False clean show ?thesis by simp
      next
        assume "t \<in> set (split_ws [] cs)"
        then show ?thesis using "2.IH"(2)[OF sp False] by simp
      qed
    qed
  next
    case False
    with mem have "t \<in> set (split_ws (cur @ [c]) cs)" by simp
    moreover have "\<forall>x\<in>set (cur @ [c]). \<not> isspace_ch x" using False clean by simp
    ultimately show ?thesis using "2.IH"(3)[OF False] by blast
  qed
qed

lemma strip_no_space:
  assumes ne: "t \<noteq> []" and ns: "\<forall>c\<in>set t. \<not> isspace_ch c"
  shows "strip t = t"
proof -
  have "dropWhile isspace_ch t = t"
    using ne ns by (simp add: dropWhile_eq_self_iff)
  moreover have "dropWhile isspace_ch (rev t) = rev t"
    using ne ns by (simp add: dropWhile_eq_self_iff hd_rev)
  ultimately show ?thesis by (simp add: strip_def)
qed

lemma split_token_nonempty: "t \<in> set (split s) \<Longrightarrow> t \<noteq> []"
  unfolding split_def using split_ws_tokens[of "[]" t s] by simp

lemma strip_token: "t \<in> set (split s) \<Longrightarrow> strip t = t"
  unfolding split_def using split_ws_tokens[of "[]" t s] strip_no_space by auto

lemma map_strip_split: "map strip (split s) = split s"
  by (rule map_idI) (rule strip_token)

subsection \<open>The key/value loop, unfolded\<close>

lemma kv_loop_reject:
  "i + 1 < length lines
     \<Longrightarrow> startswith (lines ! (i + 1)) [78] \<or> startswith (lines ! (i + 1)) [1044]
     \<Longrightarrow> kv_loop lines i data = kv_loop lines (i + 1) data"
  by (subst kv_loop.simps) (auto simp: Let_def)

lemma kv_loop_accept:
  "i + 1 < length lines \<Longrightarrow> \<not> startswith (lines ! (i + 1)) [78]
     \<Longrightarrow> \<not> startswith (lines ! (i + 1)) [1044]
     \<Longrightarrow> kv_loop lines i data
         = kv_loop lines (i + 2) (AList.update (PStr (lines ! i)) (PStr (lines ! (i + 1))) data)"
  by (subst kv_loop.simps) (simp add: Let_def)

lemma kv_loop_last:
  "i < length lines \<Longrightarrow> \<not> i + 1 < length lines
     \<Longrightarrow> kv_loop lines i data = kv_loop lines (i + 1) data"
  by (subst kv_loop.simps) simp

lemma kv_loop_done: "\<not> i < length lines \<Longrightarrow> kv_loop lines i data = data"
  by (subst kv_loop.simps) simp

lemma kv_loop_drop: "kv_loop lines i data = kv_pairs_spec (drop i lines) data"
proof (induction "length lines - i" arbitrary: i data rule: less_induct)
  case less
  show ?case
  proof (cases "i + 1 < length lines")
    case True
    then have d1: "drop (i + 1) lines = lines ! (i + 1) # drop (i + 2) lines"
      by (simp add: Cons_nth_drop_Suc)
    from True have d: "drop i lines = lines ! i # drop (i + 1) lines"
      by (simp add: Cons_nth_drop_Suc)
    show ?thesis
    proof (cases "startswith (lines ! (i + 1)) [78] \<or> startswith (lines ! (i + 1)) [1044]")
      case rej: True
      have "kv_loop lines i data = kv_loop lines (i + 1) data"
        using True rej by (rule kv_loop_reject)
      also have "\<dots> = kv_pairs_spec (drop (i + 1) lines) data"
        using True by (intro less) simp
      also have "\<dots> = kv_pairs_spec (drop i lines) data"
        unfolding d d1 using rej by simp
      finally show ?thesis .
    next
      case acc: False
      have "kv_loop lines i data
              = kv_loop lines (i + 2) (AList.update (PStr (lines ! i)) (PStr (lines ! (i + 1))) data)"
        using True acc by (intro kv_loop_accept) simp_all
      also have "\<dots> = kv_pairs_spec (drop (i + 2) lines)
                          (AList.update (PStr (lines ! i)) (PStr (lines ! (i + 1))) data)"
        using True by (intro less) simp
      also have "\<dots> = kv_pairs_spec (drop i lines) data"
        unfolding d d1 using acc by simp
      finally show ?thesis .
    qed
  next
    case False
    show ?thesis
    proof (cases "i < length lines")
      case True
      with False have len: "Suc i = length lines" by simp
      have "drop i lines = [lines ! i]"
        using True len by (simp add: Cons_nth_drop_Suc[symmetric])
      moreover have "drop (i + 1) lines = []" using len by simp
      moreover have "kv_loop lines i data = kv_loop lines (i + 1) data"
        using True False by (rule kv_loop_last)
      moreover have "kv_loop lines (i + 1) data = data"
        using len by (intro kv_loop_done) simp
      ultimately show ?thesis by simp
    next
      case False
      then show ?thesis by (simp add: kv_loop_done)
    qed
  qed
qed

lemma nonempty_lines_kv_text:
  "nonempty_lines kv_text
     = [ [1042, 1077, 1089], [49, 50, 48], [1044, 1083, 1080, 1085, 1072], [78, 47, 65]]"
  by (simp add: nonempty_lines_def kv_text_def lib_defs)

lemma strip_lines_six:
  "strip_lines (PStr six_lines) = Inr [ [104, 49], [104, 50], [104, 51], [49], [50], [51]]"
  by (simp add: strip_lines_def six_lines_def lib_defs)

subsection \<open>The fixed-row strategy by the number of captured lines\<close>

lemma table_2_no_match:
  "\<not> truthy (extract_with_pattern rt text (table_pattern ti)) \<Longrightarrow> table_2 rt text ti td = Inr td"
  by (simp add: table_2_def)

lemma table_2_regimes:
  assumes "extract_with_pattern rt text (table_pattern ti) = PStr block" and "block \<noteq> []"
    and "split_nl (strip block) = lines"
  shows "length lines < 6 \<Longrightarrow> table_2 rt text ti td = Inr (td \<lparr> td_raw_text := Some (PStr block) \<rparr>)"
    and "6 \<le> length lines \<Longrightarrow> length lines < 9 \<Longrightarrow> table_2 rt text ti td = Inl IndexError"
    and "9 \<le> length lines \<Longrightarrow>
         table_2 rt text ti td
           = Inr (td \<lparr> td_headers := Some (PList [PStr (strip (lines ! 0)), PStr (strip (lines ! 1)),
                                                  PStr (strip (lines ! 2))]),
                       td_values := Some (PList
                         [PList [PStr (strip (lines ! 3)), PStr (strip (lines ! 4))],
                          PList [PStr (strip (lines ! 5)), PStr (strip (lines ! 6))],
                          PList [PStr (strip (lines ! 7)), PStr (strip (lines ! 8))]]) \<rparr>)"
  using assms by (auto simp: table_2_def strip_lines_def pair_at_def item_def)

subsection \<open>The rows of the \<open>structured\<close> strategy\<close>

lemma keep_value_token:
  "tok \<noteq> [] \<Longrightarrow> keep_value rt tok = (ch_isdigit rt (hd tok) \<or> startswith tok [1085])"
  by (cases tok) (simp_all add: keep_value_def)

lemma row_values_filter:
  "row_values rt row_text
     = filter (\<lambda>tok. ch_isdigit rt (hd tok) \<or> startswith tok [1085]) (split row_text)"
  unfolding row_values_def map_strip_split
  by (rule filter_cong) (simp_all add: keep_value_token split_token_nonempty)

lemma row_names_distinct:
  "asc ''recommended'' \<noteq> asc ''certificate''" "asc ''recommended'' \<noteq> asc ''espz''"
  "asc ''certificate'' \<noteq> asc ''espz''"
  by (simp_all add: asc_def)

lemma structured_row_lookup:
  "map_of (structured_row rt text structure rows n) (PStr k)
     = (if k = n \<and> map_of structure n \<noteq> None
           \<and> truthy (extract_with_pattern rt text (the (map_of structure n)))
        then Some (PList (map PStr (row_values rt
                     (text_of rt (extract_with_pattern rt text (the (map_of structure n)))))))
        else map_of rows (PStr k))"
  by (auto simp: structured_row_def Let_def update_conv' split: option.splits)

lemma structured_rows_lookup:
  assumes "n \<in> {asc ''recommended'', asc ''certificate'', asc ''espz''}"
    and "map_of structure n = Some pinfo"
    and "truthy (extract_with_pattern rt text pinfo)"
  shows "map_of (foldl (structured_row rt text structure) []
                   [asc ''recommended'', asc ''certificate'', asc ''espz'']) (PStr n)
           = Some (PList (map PStr (row_values rt (text_of rt (extract_with_pattern rt text pinfo)))))"
  using assms row_names_distinct
  by (auto simp: structured_row_lookup)

lemma ewp_structured_row:
  "t \<noteq> [] \<Longrightarrow> extract_with_pattern sample_rt t
       \<lparr> pi_pattern = Some (asc ''.+''), pi_flags = Some [asc ''DOTALL''] \<rparr> = PStr t"
  by (simp add: ewp_defs sample_defs lib_defs)

subsection \<open>Group selection and the line-by-line pass\<close>

lemma select_group_spec: "select_group m i = Inr (group_choice_spec m i)"
proof (cases "m_groups m = []")
  case True
  then show ?thesis by (simp add: select_group_def group_choice_spec_def group_def)
next
  case False
  then have len: "0 < length (m_groups m)" by simp
  show ?thesis
  proof (cases "0 < i \<and> i \<le> int (length (m_groups m))")
    case True
    then have "nat i \<noteq> 0" "nat i \<le> length (m_groups m)" by auto
    with True False show ?thesis
      by (simp add: select_group_def group_choice_spec_def group_def)
  next
    case out: False
    then have "i \<le> 0 \<or> int (length (m_groups m)) < i" by auto
    with out False len show ?thesis
      by (auto simp: select_group_def group_choice_spec_def group_def Suc_le_eq)
  qed
qed

lemma select_all_spec: "select_all ms i = Inr (map (\<lambda>m. group_choice_spec m i) ms)"
  by (induction ms) (simp_all add: select_group_spec)

lemma select_lines_spec:
  "select_lines regex lines i
     = Inr (map (\<lambda>l. group_choice_spec (hd (regex l)) i) (filter (\<lambda>l. regex l \<noteq> []) lines))"
  by (induction lines) (simp_all add: select_group_spec split: list.splits)

lemma whole_lines_spec:
  "whole_lines regex lines
     = map (\<lambda>l. Some (m_group0 (hd (regex l)))) (filter (\<lambda>l. regex l \<noteq> []) lines)"
  by (induction lines) (simp_all split: list.splits)

lemma rx_digit_word_hash_doc:
  "rx_digit_word hash_doc
     = [plain_match 0 3 [49, 35, 35] [Some [49], Some [35, 35]],
        plain_match 3 4 [50] [Some [50], Some []]]"
  by (simp add: rx_digit_word_def hash_doc_def is_hash_def Let_def plain_match_def)

lemma parse_group_num_sample:
  "parse_group_num sample_rt (asc ''k: 2'') = Inr 2"
  "parse_group_num sample_rt (asc ''k: 7'') = Inr 7"
  "parse_group_num sample_rt (asc ''k: x'') = Inr 0"
  by (simp_all add: parse_group_num_def split_colon_def str_isdigit_def sample_defs lib_defs)

subsection \<open>The sample patterns on the example documents\<close>

lemma compile_one_at_end:
  "re_compile sample_rt one_at_end {IGNORECASE, MULTILINE, DOTALL} = Some rx_one_at_end"
  by (simp add: sample_rt_def sample_compile_def one_at_end_def asc_def)

lemma compile_whole:
  "re_compile sample_rt (asc ''.+'') {IGNORECASE, MULTILINE, DOTALL} = Some rx_whole"
  by (simp add: sample_rt_def sample_compile_def asc_def)

lemma one_at_end_one_two:
  "rx_one_at_end one_two = []" "split_nl one_two = [ [49], [50]]"
  "rx_one_at_end [49] = [plain_match 0 1 [49] []]" "rx_one_at_end [50] = []"
  by (simp_all add: rx_one_at_end_def one_two_def split_nl_def plain_match_def)

subsection \<open>Field extraction\<close>

lemma field_step_lookup:
  "map_of (field_step rt text acc (k', pinfo')) k
     = (if k = k' \<and> truthy (extract_with_pattern rt text pinfo')
        then Some (extract_with_pattern rt text pinfo') else map_of acc k)"
  by (simp add: field_step_def Let_def update_conv')

lemma fields_lookup:
  "distinct (map fst fs) \<Longrightarrow>
   map_of (foldl (field_step rt text) acc fs) k
     = (case map_of fs k of
          None \<Rightarrow> map_of acc k
        | Some pinfo \<Rightarrow>
            if truthy (extract_with_pattern rt text pinfo)
            then Some (extract_with_pattern rt text pinfo) else map_of acc k)"
proof (induction fs arbitrary: acc)
  case Nil
  then show ?case by simp
next
  case (Cons kp fs)
  obtain k' pinfo' where kp: "kp = (k', pinfo')" by (cases kp)
  from Cons.prems have d: "distinct (map fst fs)" and nk: "k' \<notin> fst ` set fs"
    by (simp_all add: kp)
  have none: "map_of fs k' = None"
    using nk by (simp add: map_of_eq_None_iff)
  have step: "map_of (foldl (field_step rt text) acc (kp # fs)) k
     = (case map_of fs k of
          None \<Rightarrow> map_of (field_step rt text acc (k', pinfo')) k
        | Some pinfo \<Rightarrow>
            if truthy (extract_with_pattern rt text pinfo)
            then Some (extract_with_pattern rt text pinfo)
            else map_of (field_step rt text acc (k', pinfo')) k)"
    using Cons.IH[OF d, of "field_step rt text acc (k', pinfo')"] by (simp add: kp)
  show ?case
  proof (cases "k = k'")
    case True
    then show ?thesis
      unfolding step by (simp add: kp none field_step_lookup)
  next
    case False
    then show ?thesis
      unfolding step by (simp add: kp field_step_lookup split: option.splits)
  qed
qed

lemma ewp_findall:
  assumes "pi_pattern pinfo = Some p" and "p \<noteq> []" and "\<not> contains (asc ''(?P<'') p"
    and "re_compile rt p (flags_of (case pi_flags pinfo of None \<Rightarrow> [] | Some f \<Rightarrow> f)) = Some rx"
  shows "extract_with_pattern rt text pinfo
           = (case rx text of
                [] \<Rightarrow> PNone
              | [m] \<Rightarrow> findall_item m
              | m # m' # ms \<Rightarrow> PList (map findall_item (m # m' # ms)))"
  using assms by (simp add: extract_with_pattern_def Let_def split: list.splits)

lemma store_first_Cons:
  "store_first label (v # vs) params = store_first label [v] params"
  by (simp add: store_first_def)

lemma runs_two_lines:
  "rx_runs two_lines = [plain_match 0 1 [97] [], plain_match 2 3 [98] []]"
  by (simp add: rx_runs_def two_lines_def plain_match_def)

lemma ewp_one_param:
  "extract_with_pattern sample_rt two_lines \<lparr> pi_pattern = Some (asc ''.+''), pi_flags = None \<rparr>
     = PList [PStr [97], PStr [98]]"
  by (simp add: ewp_defs sample_rt_def sample_compile_def lib_defs runs_two_lines plain_match_def)

lemma param_line_regex_line:
  "param_line regex_line = (True, asc ''([0-9])'', asc ''grade'')"
  "123 \<in> set regex_line" "125 \<in> set regex_line" "58 \<notin> set (asc ''grade'')"
  by (simp_all add: param_line_def regex_line_def index_of_def lib_defs)

lemma digit_two_subsections:
  "rx_digit two_subsections
     = [plain_match 0 1 [49] [Some [49]], plain_match 3 4 [50] [Some [50]]]"
  by (simp add: rx_digit_def two_subsections_def plain_match_def)

lemma compile_digit:
  "re_compile sample_rt (asc ''([0-9])'') fl = Some rx_digit"
  by (simp add: sample_rt_def sample_compile_def asc_def)

subsection \<open>Subsections\<close>

lemma group_one: "m_groups m \<noteq> [] \<Longrightarrow> group m (Suc 0) = Inr (m_groups m ! 0)"
  by (simp add: group_def Suc_le_eq)

lemma label_key_first:
  "m_groups m \<noteq> []
     \<Longrightarrow> (case m_groups m ! 0 of None \<Rightarrow> PNone | Some l \<Rightarrow> PStr l) = label_key m"
  by (cases "m_groups m") (auto simp: label_key_def split: option.splits)

lemma subsections_loop_spec:
  "\<forall>m\<in>set ms. m_groups m \<noteq> [] \<Longrightarrow>
   subsections_loop text ms acc
     = Inr (foldl (\<lambda>d (m, b). AList.update (label_key m) (PStr (strip b)) d) acc
              (zip ms (bodies_spec text ms)))"
proof (induction ms arbitrary: acc)
  case Nil
  then show ?case by simp
next
  case (Cons m ms)
  then have g: "m_groups m \<noteq> []" and rest: "\<forall>m\<in>set ms. m_groups m \<noteq> []" by simp_all
  show ?case
    using Cons.IH[OF rest] by (simp add: group_one[OF g] label_key_first[OF g] Let_def)
qed

lemma update_fresh: "k \<notin> fst ` set al \<Longrightarrow> AList.update k v al = al @ [(k, v)]"
  by (induction al) auto

lemma foldl_update_distinct:
  "distinct (map fst (acc @ kvs)) \<Longrightarrow>
   foldl (\<lambda>d (k, v). AList.update k v d) acc kvs = acc @ kvs"
proof (induction kvs arbitrary: acc)
  case Nil
  then show ?case by simp
next
  case (Cons kv kvs)
  obtain k v where kv: "kv = (k, v)" by (cases kv)
  from Cons.prems have fresh: "k \<notin> fst ` set acc" by (auto simp: kv)
  from Cons.prems have d: "distinct (map fst ((acc @ [(k, v)]) @ kvs))" by (simp add: kv)
  show ?case
    using Cons.IH[OF d] by (simp add: kv update_fresh[OF fresh])
qed

lemma zip_label_keys:
  "length bs = length ms \<Longrightarrow>
   map fst (map (\<lambda>(m, b). (label_key m, PStr (strip b))) (zip ms bs)) = map label_key ms"
  by (induction ms bs rule: list_induct2') simp_all

lemma slice_join:
  assumes "i \<le> j" and "j \<le> length text"
  shows "slice text i j @ drop j text = drop i text"
proof -
  have "take (j - i) (drop i text) @ drop (j - i) (drop i text) = drop i text"
    by (rule append_take_drop_id)
  moreover have "drop (j - i) (drop i text) = drop j text"
    using assms(1) by simp
  ultimately show ?thesis by (simp add: slice_def)
qed

lemma slice_to_end: "slice text i (length text) = drop i text"
  by (simp add: slice_def)

lemma reassemble_from:
  "wf_matches text pos ms \<Longrightarrow> pos \<le> length text \<Longrightarrow>
   slice text pos (case ms of [] \<Rightarrow> length text | m # _ \<Rightarrow> m_start m)
     @ concat (map (\<lambda>(m, b). m_group0 m @ b) (zip ms (bodies_spec text ms)))
   = drop pos text"
proof (induction ms arbitrary: pos)
  case Nil
  then show ?case by (simp add: slice_to_end)
next
  case (Cons m ms)
  from Cons.prems have b: "pos \<le> m_start m" "m_start m \<le> m_end m" "m_end m \<le> length text"
    and g0: "m_group0 m = slice text (m_start m) (m_end m)"
    and wf: "wf_matches text (m_end m) ms"
    by simp_all
  have tail: "slice text (m_end m) (case ms of [] \<Rightarrow> length text | m' # _ \<Rightarrow> m_start m')
     @ concat (map (\<lambda>(m, b). m_group0 m @ b) (zip ms (bodies_spec text ms)))
     = drop (m_end m) text"
    using Cons.IH[OF wf b(3)] .
  have "slice text pos (m_start m) @ m_group0 m @ drop (m_end m) text = drop pos text"
    unfolding g0 using b by (simp add: slice_join)
  then show ?case
    using tail by simp
qed

lemma reassemble_bodies:
  "wf_matches text 0 ms \<Longrightarrow> reassemble_spec text ms (bodies_spec text ms) = text"
  using reassemble_from[of "text" 0 ms]
  by (simp add: reassemble_spec_def slice_def split: list.splits)

lemma digit_labels: "rx_digit two_subsections = [label_one, label_two]"
  by (simp add: rx_digit_def two_subsections_def plain_match_def label_one_def label_two_def)

lemma labels_wf: "wf_matches two_subsections 0 [label_one, label_two]"
  by (simp add: plain_match_def two_subsections_def slice_def label_one_def label_two_def)

lemma labels_bodies: "bodies_spec two_subsections [label_one, label_two] = [ [97, 10], [98]]"
  by (simp add: plain_match_def two_subsections_def slice_def label_one_def label_two_def)

lemma labels_keys: "label_key label_one = PStr [49]" "label_key label_two = PStr [50]"
  by (simp_all add: plain_match_def label_key_def label_one_def label_two_def)

lemma labels_groups: "\<forall>m\<in>set [label_one, label_two]. m_groups m \<noteq> []"
  by (simp add: plain_match_def label_one_def label_two_def)

lemma labels_loop:
  "subsections_loop two_subsections [label_one, label_two] []
     = Inr [(PStr [49], PStr [97]), (PStr [50], PStr [98])]"
  by (simp add: group_def plain_match_def label_one_def label_two_def two_subsections_def
        slice_def strip_def isspace_ch_def)

lemma labels_reassemble_stored:
  "reassemble_spec two_subsections [label_one, label_two] [ [97], [98]] = [49, 97, 50, 98]"
  by (simp add: reassemble_spec_def plain_match_def label_one_def label_two_def two_subsections_def)

subsection \<open>Sections\<close>

lemma fold_err_append:
  "fold_err f (xs @ ys) s
     = (case fold_err f xs s of Inl e \<Rightarrow> Inl e | Inr s' \<Rightarrow> fold_err f ys s')"
  by (induction xs arbitrary: s) (simp_all split: sum.splits)

lemma section_step_absent:
  "\<not> truthy (extract_with_pattern rt text pinfo)
     \<Longrightarrow> section_step rt text (n, pinfo) acc = Inr acc"
  by (simp add: section_step_def Let_def)

lemma section_step_plain:
  assumes "extract_with_pattern rt text pinfo = PStr body" and "body \<noteq> []"
    and "si_extraction_method pinfo = Some (asc ''structured_subsections'')"
    and "si_subsection_pattern pinfo = Some sp"
    and "re_compile rt sp {MULTILINE, DOTALL} = Some rx" and "rx body = []"
  shows "section_step rt text (n, pinfo) acc = Inr (AList.update n (PStr body) acc)"
  using assms by (simp add: section_step_def Let_def)

lemma section_step_simple:
  assumes "truthy (extract_with_pattern rt text pinfo)"
    and "si_extraction_method pinfo \<noteq> Some (asc ''structured_subsections'')
         \<or> si_subsection_pattern pinfo = None"
  shows "section_step rt text (n, pinfo) acc
           = Inr (AList.update n (extract_with_pattern rt text pinfo) acc)"
proof (cases "si_extraction_method pinfo")
  case None
  then show ?thesis using assms(1) by (simp add: section_step_def Let_def asc_def)
next
  case (Some m)
  then show ?thesis using assms by (auto simp: section_step_def Let_def)
qed

lemma section_step_other:
  assumes "section_step rt text (n, pinfo) acc = Inr acc'" and "k \<noteq> n"
  shows "map_of acc' k = map_of acc k"
proof (cases "truthy (extract_with_pattern rt text pinfo)")
  case False
  with assms show ?thesis by (simp add: section_step_absent)
next
  case True
  have "acc' = acc \<or> (\<exists>v. acc' = AList.update n v acc)"
    using assms(1) True
    by (auto simp: section_step_def Let_def
          split: if_splits option.splits sum.splits pyval.splits)
  with assms(2) show ?thesis by (auto simp: update_conv')
qed

lemma sections_other:
  "fold_err (section_step rt text) ss acc = Inr res \<Longrightarrow> k \<notin> fst ` set ss
     \<Longrightarrow> map_of res k = map_of acc k"
proof (induction ss arbitrary: acc)
  case Nil
  then show ?case by simp
next
  case (Cons kp ss)
  obtain n pinfo where kp: "kp = (n, pinfo)" by (cases kp)
  from Cons.prems(1) obtain acc1 where
    s1: "section_step rt text (n, pinfo) acc = Inr acc1"
    and s2: "fold_err (section_step rt text) ss acc1 = Inr res"
    by (auto simp: kp split: sum.splits)
  from Cons.prems(2) have "k \<noteq> n" "k \<notin> fst ` set ss" by (auto simp: kp)
  then show ?case
    using Cons.IH[OF s2] section_step_other[OF s1] by simp
qed

lemma sections_lookup:
  assumes "fold_err (section_step rt text) ss [] = Inr res"
    and "distinct (map fst ss)" and "map_of ss name = Some pinfo"
  shows "\<exists>acc1 acc2. map_of acc1 name = None
            \<and> section_step rt text (name, pinfo) acc1 = Inr acc2
            \<and> map_of res name = map_of acc2 name"
proof -
  from assms(3) have "(name, pinfo) \<in> set ss" by (rule map_of_SomeD)
  then obtain ss1 ss2 where ss: "ss = ss1 @ (name, pinfo) # ss2"
    by (auto simp: in_set_conv_decomp)
  from assms(2) have n1: "name \<notin> fst ` set ss1" and n2: "name \<notin> fst ` set ss2"
    by (auto simp: ss)
  from assms(1) obtain acc1 acc2 where
    a1: "fold_err (section_step rt text) ss1 [] = Inr acc1"
    and a2: "section_step rt text (name, pinfo) acc1 = Inr acc2"
    and a3: "fold_err (section_step rt text) ss2 acc2 = Inr res"
    by (auto simp: ss fold_err_append split: sum.splits)
  have "map_of acc1 name = None" using sections_other[OF a1 n1] by simp
  moreover have "map_of res name = map_of acc2 name" using sections_other[OF a3 n2] .
  ultimately show ?thesis using a2 by blast
qed

lemma ewp_whole_section:
  "t \<noteq> [] \<Longrightarrow> extract_with_pattern sample_rt t (whole_section method sub) = PStr t"
  "extract_with_pattern sample_rt [] (whole_section method sub) = PNone"
  by (simp_all add: ewp_defs whole_section_def sample_defs lib_defs)

lemma section_doc_between:
  "section_markers section_block = (Some (asc ''S''), Some (asc ''E''), Some (asc ''([0-9])''))"
  "extract_text_between section_doc (asc ''S'') (asc ''E'') = asc ''body''"
  by (simp_all add: section_markers_def section_block_def extract_text_between_def
        section_doc_def lib_defs)

lemma asc_nonempty: "asc (c # cs) \<noteq> []"
  by (simp add: asc_def)

lemma no_digit_in_body: "rx_digit (asc ''body'') = []"
  by (simp add: rx_digit_def asc_def)

subsection \<open>Fields that are left out\<close>

lemma field_step_falsy:
  "\<not> truthy (extract_with_pattern rt text pinfo) \<Longrightarrow> field_step rt text acc (key, pinfo) = acc"
  by (simp add: field_step_def Let_def)

lemma fields_skip:
  "\<not> truthy (extract_with_pattern rt text pinfo) \<Longrightarrow>
   extract_fields rt text (Some (fs1 @ (key, pinfo) # fs2)) = extract_fields rt text (Some (fs1 @ fs2))"
  by (simp add: extract_fields_def field_step_falsy)

lemma fields_keys:
  "fst ` set (foldl (field_step rt text) acc fs) \<subseteq> fst ` set acc \<union> fst ` set fs"
proof (induction fs arbitrary: acc)
  case Nil
  then show ?case by simp
next
  case (Cons kp fs)
  have "fst ` set (field_step rt text acc kp) \<subseteq> fst ` set acc \<union> {fst kp}"
    by (auto simp: field_step_def Let_def dom_update)
  with Cons.IH[of "field_step rt text acc kp"] show ?case by auto
qed

lemma fields_no_key:
  "key \<notin> fst ` set fs \<Longrightarrow> map_of (extract_fields rt text (Some fs)) key = None"
  using fields_keys[of rt "text" "[]" fs]
  by (auto simp: extract_fields_def map_of_eq_None_iff)

lemma sample_fields:
  "extract_with_pattern sample_rt [97, 98] digit_field = PNone"
  "extract_with_pattern sample_rt [97, 98] line_field = PStr [97, 98]"
  "extract_with_pattern sample_rt [97, 98] empty_field = PStr []"
  by (simp_all add: ewp_defs digit_field_def line_field_def empty_field_def sample_defs lib_defs)

lemma hashes_in_a: "rx_hashes [97] = [plain_match 0 0 [] [], plain_match 1 1 [] []]"
  by (simp add: rx_hashes_def plain_match_def)

lemma ewp_hash_meta:
  "extract_with_pattern sample_rt [97] \<lparr> pi_pattern = Some (asc ''#*''), pi_flags = None \<rparr>
     = PList [PStr [], PStr []]"
  by (simp add: ewp_defs sample_rt_def sample_compile_def lib_defs hashes_in_a plain_match_def)

subsection \<open>A whole run on the example\<close>

lemma parse_one_param:
  "parse_document sample_rt one_param two_lines
     = Inr \<lparr> er_metadata = [],
             er_technical_params = [(asc ''steel_grade'', PList [PStr [97], PStr [98]])],
             er_sections = [], er_tables = [] \<rparr>"
  by (simp add: parse_document_def extract_metadata_def extract_technical_params_def
        extract_sections_def extract_tables_def extract_fields_def field_step_def
        one_param_def ewp_one_param)

subsection \<open>A row pattern with two matches\<close>

lemma findall_item_string:
  "length (m_groups m) \<le> 1 \<Longrightarrow> \<exists>s. findall_item m = PStr s"
  by (cases "m_groups m") (auto simp: findall_item_def split: list.splits)

lemma runs_two_rows:
  "rx_runs two_rows = [plain_match 0 3 [49, 32, 50] [], plain_match 4 7 [51, 32, 52] []]"
  by (simp add: rx_runs_def two_rows_def plain_match_def)

lemma ewp_two_rows:
  "extract_with_pattern repr_rt two_rows line_field = PList [PStr [49, 32, 50], PStr [51, 32, 52]]"
  by (simp add: ewp_defs repr_rt_def sample_rt_def sample_compile_def lib_defs line_field_def
        runs_two_rows plain_match_def)

lemma str_two_rows:
  "py_str repr_rt (PList [PStr [49, 32, 50], PStr [51, 32, 52]])
     = [91, 39, 49, 32, 50, 39, 44, 32, 39, 51, 32, 52, 39, 93]"
  by (simp add: repr_rt_def str_of_list_def plain_text_def)

lemma row_values_two_rows:
  "row_values repr_rt [91, 39, 49, 32, 50, 39, 44, 32, 39, 51, 32, 52, 39, 93]
     = [ [50, 39, 44], [52, 39, 93]]"
  by (simp add: row_values_def keep_value_def split_def strip_def isspace_ch_def startswith_def
        repr_rt_def sample_rt_def)

section \<open>The claims\<close>

text \<open>
  C1. \<open>extract_table\<close> is claimed never to raise; the fixed-row strategy
  (\<open>structured_table_2\<close>) is claimed to take the first three of at least six lines as
  headers and to pair up the rest. The code tests \<open>len(lines) >= 6\<close> and then reads
  \<open>lines[6]\<close>, \<open>lines[7]\<close> and \<open>lines[8]\<close>: on a captured block of six lines the run
  ends in \<open>IndexError\<close>.
\<close>

theorem fixed_row_six_lines_raises:
  "extract_table sample_rt six_lines (whole_spec (asc ''structured_table_2'')) = Inl IndexError"
proof -
  have ne: "six_lines \<noteq> []" by (simp add: six_lines_def)
  have "table_2 sample_rt six_lines (whole_spec (asc ''structured_table_2''))
           (base_table (whole_spec (asc ''structured_table_2''))) = Inl IndexError"
    by (simp add: table_2_def ewp_whole[OF ne] ne strip_lines_six pair_at_def item_def)
  then show ?thesis
    by (simp add: extract_table_2 whole_spec_def)
qed

text \<open>
  C6. Key/value table pairing: the data map of the \<open>key_value_table\<close> strategy is the
  pairing of the non-empty stripped lines of the captured block, where a would-be
  value that starts with \<open>N\<close> or Cyrillic \<open>De\<close> is rejected and the scan then
  advances by one line instead of two; the index loop of the code computes that
  pairing from any position; and the lines \<open>Ves\<close>, \<open>120\<close>, \<open>Dlina\<close>, \<open>N/A\<close> give
  exactly the map from \<open>Ves\<close> to \<open>120\<close>.
\<close>

theorem key_value_pairing:
  assumes "ti_extraction_method ti = Some (asc ''key_value_table'')"
    and "ti_pattern ti \<noteq> None"
    and "extract_with_pattern rt text (table_pattern ti) = PStr block"
    and "block \<noteq> []"
  shows "extract_table rt text ti
           = Inr ((base_table ti) \<lparr> td_data := PDict (kv_pairs_spec (nonempty_lines block) []) \<rparr>)
         \<and> (\<forall>l \<in> set (nonempty_lines block). l \<noteq> [])
         \<and> kv_loop lines i data = kv_pairs_spec (drop i lines) data
         \<and> kv_loop [ [1042, 1077, 1089], [49, 50, 48], [1044, 1083, 1080, 1085, 1072], [78, 47, 65]]
              0 []
             = [(PStr [1042, 1077, 1089], PStr [49, 50, 48])]"
proof -
  have "extract_table rt text ti = table_key_value rt text ti (base_table ti)"
    using assms(1,2) by (rule extract_table_key_value)
  then have "extract_table rt text ti
           = Inr ((base_table ti) \<lparr> td_data := PDict (kv_pairs_spec (nonempty_lines block) []) \<rparr>)"
    using assms(3,4) by (simp add: table_key_value_def kv_loop_drop)
  moreover have "\<forall>l \<in> set (nonempty_lines block). l \<noteq> []"
    by (auto simp: nonempty_lines_def)
  moreover have "kv_loop [ [1042, 1077, 1089], [49, 50, 48], [1044, 1083, 1080, 1085, 1072],
                          [78, 47, 65]] 0 []
                   = [(PStr [1042, 1077, 1089], PStr [49, 50, 48])]"
    by (simp add: kv_loop_drop startswith_def)
  ultimately show ?thesis
    by (simp add: kv_loop_drop)
qed

theorem key_value_pairing_witness:
  "extract_table sample_rt kv_text (whole_spec (asc ''key_value_table''))
     = Inr ((base_table (whole_spec (asc ''key_value_table'')))
              \<lparr> td_data := PDict [(PStr [1042, 1077, 1089], PStr [49, 50, 48])] \<rparr>)"
proof -
  have ne: "kv_text \<noteq> []" by (simp add: kv_text_def)
  have "extract_table sample_rt kv_text (whole_spec (asc ''key_value_table''))
          = Inr ((base_table (whole_spec (asc ''key_value_table'')))
                   \<lparr> td_data := PDict (kv_pairs_spec (nonempty_lines kv_text) []) \<rparr>)"
    using key_value_pairing[of "whole_spec (asc ''key_value_table'')" sample_rt kv_text kv_text]
      ewp_whole[OF ne] ne
    by (simp add: whole_spec_def)
  then show ?thesis
    by (simp add: nonempty_lines_kv_text startswith_def)
qed

text \<open>
  C7. Structured-table numeric filter. For every row the claim does not hold: a row
  pattern with two or more matches, or with two or more groups, makes
  \<open>extract_with_pattern\<close> return a list or a tuple, which the \<open>structured\<close> branch
  turns into text with \<open>str\<close> before it splits; the tokens are then those of the printed
  list. On the document \<open>1 2\<close> newline \<open>3 4\<close> with the row pattern \<open>.+\<close> the two
  captured lines have the tokens \<open>1\<close>, \<open>2\<close> and \<open>3\<close>, \<open>4\<close>, and the row stored is
  \<open>2\<close> quote comma, \<open>4\<close> quote bracket. What holds: when the capture of the row is a
  string, as it is whenever the pattern has no named group and matches exactly once with
  at most one group, the value list of the row is the list of the whitespace-separated
  tokens of the captured text, in their order, restricted to those whose first
  character is a digit or that start with Cyrillic \<open>en\<close>; for a capture that is not a
  string it is the same filter of the tokens of \<open>str\<close> of the capture. The \<open>strip\<close> and
  the emptiness test of the loop change nothing, as a token is never empty and has no
  blank. For the row text \<open>0,42 0,25 Rekomend\<close> the list is exactly \<open>0,42\<close>, \<open>0,25\<close>,
  whenever \<open>0\<close> is a digit and Cyrillic \<open>Er\<close> is not.
\<close>

theorem structured_numeric_filter:
  assumes "ti_extraction_method ti = None \<or> ti_extraction_method ti = Some (asc ''structured'')"
    and "ti_structure ti = Some structure"
    and "row_name \<in> {asc ''recommended'', asc ''certificate'', asc ''espz''}"
    and "map_of structure row_name = Some pinfo"
    and "truthy (extract_with_pattern rt text pinfo)"
  shows "(extract_with_pattern rt text pinfo = PStr captured
          \<longrightarrow> (\<exists>td rows. extract_table rt text ti = Inr td \<and> td_rows td = PDict rows
                \<and> map_of rows (PStr row_name)
                    = Some (PList (map PStr
                        (filter (\<lambda>tok. ch_isdigit rt (hd tok) \<or> startswith tok [1085])
                           (split captured))))))
         \<and> ((\<forall>s. extract_with_pattern rt text pinfo \<noteq> PStr s)
          \<longrightarrow> (\<exists>td rows. extract_table rt text ti = Inr td \<and> td_rows td = PDict rows
                \<and> map_of rows (PStr row_name)
                    = Some (PList (map PStr
                        (filter (\<lambda>tok. ch_isdigit rt (hd tok) \<or> startswith tok [1085])
                           (split (py_str rt (extract_with_pattern rt text pinfo))))))))
         \<and> (pi_pattern pinfo = Some p \<and> p \<noteq> [] \<and> \<not> contains (asc ''(?P<'') p
              \<and> re_compile rt p (flags_of (case pi_flags pinfo of None \<Rightarrow> [] | Some f \<Rightarrow> f)) = Some rx
              \<and> rx text = [m] \<and> length (m_groups m) \<le> 1
          \<longrightarrow> (\<exists>s. extract_with_pattern rt text pinfo = PStr s))
         \<and> (\<forall>tok \<in> set (split row_text). tok \<noteq> [] \<and> strip tok = tok)
         \<and> (ch_isdigit rt 48 \<and> \<not> ch_isdigit rt 1056
              \<longrightarrow> row_values rt row_text_example = [ [48, 44, 52, 50], [48, 44, 50, 53]])"
proof -
  have t: "extract_table rt text ti = Inr (table_structured rt text structure (base_table ti))"
    using assms(1,2) by (rule extract_table_structured)
  have "map_of (foldl (structured_row rt text structure) []
                   [asc ''recommended'', asc ''certificate'', asc ''espz'']) (PStr row_name)
          = Some (PList (map PStr
                    (filter (\<lambda>tok. ch_isdigit rt (hd tok) \<or> startswith tok [1085])
                       (split (text_of rt (extract_with_pattern rt text pinfo))))))"
    using structured_rows_lookup[OF assms(3,4,5)] by (simp add: row_values_filter)
  then have g: "\<exists>td rows. extract_table rt text ti = Inr td \<and> td_rows td = PDict rows
            \<and> map_of rows (PStr row_name)
                = Some (PList (map PStr
                    (filter (\<lambda>tok. ch_isdigit rt (hd tok) \<or> startswith tok [1085])
                       (split (text_of rt (extract_with_pattern rt text pinfo))))))"
    unfolding t table_structured_def by simp
  have a: "extract_with_pattern rt text pinfo = PStr captured
          \<longrightarrow> (\<exists>td rows. extract_table rt text ti = Inr td \<and> td_rows td = PDict rows
                \<and> map_of rows (PStr row_name)
                    = Some (PList (map PStr
                        (filter (\<lambda>tok. ch_isdigit rt (hd tok) \<or> startswith tok [1085])
                           (split captured)))))"
  proof
    assume "extract_with_pattern rt text pinfo = PStr captured"
    then have "text_of rt (extract_with_pattern rt text pinfo) = captured"
      by (simp add: text_of_def)
    with g show "\<exists>td rows. extract_table rt text ti = Inr td \<and> td_rows td = PDict rows
                \<and> map_of rows (PStr row_name)
                    = Some (PList (map PStr
                        (filter (\<lambda>tok. ch_isdigit rt (hd tok) \<or> startswith tok [1085])
                           (split captured))))"
      by simp
  qed
  have b: "(\<forall>s. extract_with_pattern rt text pinfo \<noteq> PStr s)
          \<longrightarrow> (\<exists>td rows. extract_table rt text ti = Inr td \<and> td_rows td = PDict rows
                \<and> map_of rows (PStr row_name)
                    = Some (PList (map PStr
                        (filter (\<lambda>tok. ch_isdigit rt (hd tok) \<or> startswith tok [1085])
                           (split (py_str rt (extract_with_pattern rt text pinfo)))))))"
  proof
    assume "\<forall>s. extract_with_pattern rt text pinfo \<noteq> PStr s"
    then have "text_of rt (extract_with_pattern rt text pinfo)
                 = py_str rt (extract_with_pattern rt text pinfo)"
      by (cases "extract_with_pattern rt text pinfo") (simp_all add: text_of_def)
    with g show "\<exists>td rows. extract_table rt text ti = Inr td \<and> td_rows td = PDict rows
                \<and> map_of rows (PStr row_name)
                    = Some (PList (map PStr
                        (filter (\<lambda>tok. ch_isdigit rt (hd tok) \<or> startswith tok [1085])
                           (split (py_str rt (extract_with_pattern rt text pinfo))))))"
      by simp
  qed
  have c: "pi_pattern pinfo = Some p \<and> p \<noteq> [] \<and> \<not> contains (asc ''(?P<'') p
              \<and> re_compile rt p (flags_of (case pi_flags pinfo of None \<Rightarrow> [] | Some f \<Rightarrow> f)) = Some rx
              \<and> rx text = [m] \<and> length (m_groups m) \<le> 1
          \<longrightarrow> (\<exists>s. extract_with_pattern rt text pinfo = PStr s)"
  proof
    assume h: "pi_pattern pinfo = Some p \<and> p \<noteq> [] \<and> \<not> contains (asc ''(?P<'') p
              \<and> re_compile rt p (flags_of (case pi_flags pinfo of None \<Rightarrow> [] | Some f \<Rightarrow> f)) = Some rx
              \<and> rx text = [m] \<and> length (m_groups m) \<le> 1"
    then have "extract_with_pattern rt text pinfo = findall_item m"
      using ewp_findall[of pinfo p rt rx "text"] by simp
    with h show "\<exists>s. extract_with_pattern rt text pinfo = PStr s"
      using findall_item_string[of m] by simp
  qed
  have d: "\<forall>tok \<in> set (split row_text). tok \<noteq> [] \<and> strip tok = tok"
    by (simp add: split_token_nonempty strip_token)
  have s: "split row_text_example
             = [ [48, 44, 52, 50], [48, 44, 50, 53], [1056, 1077, 1082, 1086, 1084, 1077, 1085, 1076]]"
    by (simp add: row_text_example_def split_def isspace_ch_def)
  have e: "ch_isdigit rt 48 \<and> \<not> ch_isdigit rt 1056
              \<longrightarrow> row_values rt row_text_example = [ [48, 44, 52, 50], [48, 44, 50, 53]]"
    by (simp add: row_values_filter s startswith_def)
  from a b c d e show ?thesis by blast
qed

theorem stringified_capture_counterexample:
  "extract_with_pattern repr_rt two_rows line_field = PList [PStr [49, 32, 50], PStr [51, 32, 52]]
   \<and> split [49, 32, 50] = [ [49], [50]] \<and> split [51, 32, 52] = [ [51], [52]]
   \<and> py_str repr_rt (PList [PStr [49, 32, 50], PStr [51, 32, 52]])
       = [91, 39, 49, 32, 50, 39, 44, 32, 39, 51, 32, 52, 39, 93]
   \<and> extract_table repr_rt two_rows two_match_spec
       = Inr ((base_table two_match_spec)
                \<lparr> td_columns := PList [],
                  td_rows := PDict [(PStr (asc ''recommended''),
                                     PList [PStr [50, 39, 44], PStr [52, 39, 93]])] \<rparr>)"
proof -
  have s: "split [49, 32, 50] = [ [49], [50]]" "split [51, 32, 52] = [ [51], [52]]"
    by (simp_all add: split_def isspace_ch_def)
  have r: "structured_row repr_rt two_rows [(asc ''recommended'', line_field)] [] (asc ''recommended'')
             = [(PStr (asc ''recommended''), PList [PStr [50, 39, 44], PStr [52, 39, 93]])]"
    by (simp add: structured_row_def ewp_two_rows text_of_def str_two_rows row_values_two_rows)
  have o: "structured_row repr_rt two_rows [(asc ''recommended'', line_field)] acc (asc ''certificate'') = acc"
      "structured_row repr_rt two_rows [(asc ''recommended'', line_field)] acc (asc ''espz'') = acc" for acc
    by (simp_all add: structured_row_def asc_def)
  have c: "structured_columns repr_rt two_rows [(asc ''recommended'', line_field)] = PList []"
    by (simp add: structured_columns_def asc_def)
  have t: "extract_table repr_rt two_rows two_match_spec
       = Inr (table_structured repr_rt two_rows [(asc ''recommended'', line_field)]
                (base_table two_match_spec))"
    by (rule extract_table_structured) (simp_all add: two_match_spec_def)
  show ?thesis
    by (simp add: ewp_two_rows s str_two_rows t table_structured_def r o c)
qed

theorem structured_numeric_filter_witness:
  "extract_with_pattern sample_rt row_text_example
       \<lparr> pi_pattern = Some (asc ''.+''), pi_flags = Some [asc ''DOTALL''] \<rparr> = PStr row_text_example
   \<and> (\<exists>td rows. extract_table sample_rt row_text_example structured_spec = Inr td
      \<and> td_rows td = PDict rows
      \<and> map_of rows (PStr (asc ''recommended''))
           = Some (PList [PStr [48, 44, 52, 50], PStr [48, 44, 50, 53]]))"
proof -
  have ne: "row_text_example \<noteq> []" by (simp add: row_text_example_def)
  have s: "split row_text_example
             = [ [48, 44, 52, 50], [48, 44, 50, 53], [1056, 1077, 1082, 1086, 1084, 1077, 1085, 1076]]"
    by (simp add: row_text_example_def split_def isspace_ch_def)
  have f: "filter (\<lambda>tok. ch_isdigit sample_rt (hd tok) \<or> startswith tok [1085]) (split row_text_example)
            = [ [48, 44, 52, 50], [48, 44, 50, 53]]"
    by (simp add: s sample_rt_def startswith_def)
  note t = structured_numeric_filter[of structured_spec
        "[(asc ''recommended'', \<lparr> pi_pattern = Some (asc ''.+''), pi_flags = Some [asc ''DOTALL''] \<rparr>)]"
        "asc ''recommended''"
        "\<lparr> pi_pattern = Some (asc ''.+''), pi_flags = Some [asc ''DOTALL''] \<rparr>"
        sample_rt row_text_example row_text_example]
  have "extract_with_pattern sample_rt row_text_example
          \<lparr> pi_pattern = Some (asc ''.+''), pi_flags = Some [asc ''DOTALL''] \<rparr> = PStr row_text_example
        \<longrightarrow> (\<exists>td rows. extract_table sample_rt row_text_example structured_spec = Inr td
              \<and> td_rows td = PDict rows
              \<and> map_of rows (PStr (asc ''recommended''))
                   = Some (PList (map PStr
                        (filter (\<lambda>tok. ch_isdigit sample_rt (hd tok) \<or> startswith tok [1085])
                           (split row_text_example)))))"
    using t ewp_structured_row[OF ne] ne by (simp add: structured_spec_def)
  then show ?thesis
    using ewp_structured_row[OF ne] by (simp add: f)
qed

text \<open>
  C8. Capture-group selection: for a label that names group \<open>i\<close>, the value taken
  from a match is the whole match when the pattern has no group, group 1 when it has
  a group and \<open>i\<close> is not a positive index within the group count, and group \<open>i\<close>
  otherwise; the choice never raises, and once the label's group number is read,
  \<open>_find_by_regex\<close> returns the choice for every match of the document.
\<close>

theorem group_selection_fallback:
  "select_group m i = Inr (group_choice_spec m i)
   \<and> (re_compile rt pattern {IGNORECASE, MULTILINE, DOTALL} = Some regex
        \<and> 58 \<in> set label_part \<and> parse_group_num rt label_part = Inr i
        \<and> regex document_text \<noteq> []
      \<longrightarrow> find_by_regex rt document_text pattern label_part find_all
            = Inr (map (\<lambda>m. group_choice_spec m i) (regex document_text)))"
  by (simp add: select_group_spec find_by_regex_def select_all_spec)

theorem group_selection_fallback_witness:
  "find_by_regex sample_rt hash_doc (asc ''([0-9])(#*)'') (asc ''k: 2'') False
     = Inr [Some [35, 35], Some []]
   \<and> find_by_regex sample_rt hash_doc (asc ''([0-9])(#*)'') (asc ''k: 7'') False
     = Inr [Some [49], Some [50]]
   \<and> find_by_regex sample_rt hash_doc (asc ''([0-9])(#*)'') (asc ''k: x'') False
     = Inr [Some [49], Some [50]]
   \<and> find_by_regex sample_rt hash_doc (asc ''.+'') (asc ''k: 2'') False
     = Inr [Some hash_doc]"
proof -
  have c: "re_compile sample_rt (asc ''([0-9])(#*)'') {IGNORECASE, MULTILINE, DOTALL} = Some rx_digit_word"
       "re_compile sample_rt (asc ''.+'') {IGNORECASE, MULTILINE, DOTALL} = Some rx_whole"
    by (simp_all add: sample_rt_def sample_compile_def asc_def)
  have l: "58 \<in> set (asc ''k: 2'')" "58 \<in> set (asc ''k: 7'')" "58 \<in> set (asc ''k: x'')"
    by (simp_all add: asc_def)
  have w: "rx_whole hash_doc = [plain_match 0 4 hash_doc []]"
    by (simp add: rx_whole_def hash_doc_def plain_match_def)
  have ch: "group_choice_spec (plain_match 0 3 [49, 35, 35] [Some [49], Some [35, 35]]) 2 = Some [35, 35]"
    "group_choice_spec (plain_match 3 4 [50] [Some [50], Some []]) 2 = Some []"
    "group_choice_spec (plain_match 0 3 [49, 35, 35] [Some [49], Some [35, 35]]) 7 = Some [49]"
    "group_choice_spec (plain_match 3 4 [50] [Some [50], Some []]) 7 = Some [50]"
    "group_choice_spec (plain_match 0 3 [49, 35, 35] [Some [49], Some [35, 35]]) 0 = Some [49]"
    "group_choice_spec (plain_match 3 4 [50] [Some [50], Some []]) 0 = Some [50]"
    "group_choice_spec (plain_match 0 4 hash_doc []) 2 = Some hash_doc"
    by (simp_all add: group_choice_spec_def plain_match_def)
  show ?thesis
    using group_selection_fallback[of _ 2 sample_rt "asc ''([0-9])(#*)''" rx_digit_word "asc ''k: 2''" hash_doc False]
      group_selection_fallback[of _ 7 sample_rt "asc ''([0-9])(#*)''" rx_digit_word "asc ''k: 7''" hash_doc False]
      group_selection_fallback[of _ 0 sample_rt "asc ''([0-9])(#*)''" rx_digit_word "asc ''k: x''" hash_doc False]
      group_selection_fallback[of _ 2 sample_rt "asc ''.+''" rx_whole "asc ''k: 2''" hash_doc False]
    by (simp add: c l w ch parse_group_num_sample rx_digit_word_hash_doc)
qed

text \<open>
  C4. Two-tier search of \<open>_find_by_regex\<close> in its all-occurrences modes. The claim
  that a pattern without a match in the full document has none in the line-by-line
  pass either does not hold: a \<open>1\<close> that must end the text has no match in the text
  \<open>1\<close> newline \<open>2\<close> and has one in its first line, and the pass returns it. What holds:
  when the full-document search finds nothing the result is what the line-by-line pass
  finds, the first match of each line that has one, in line order; when it finds a
  match, the result is its matches alone, whatever the pattern does on single lines.
\<close>

theorem two_tier_fallback:
  assumes "re_compile rt pattern {IGNORECASE, MULTILINE, DOTALL} = Some regex"
  shows "(58 \<notin> set label_part
           \<longrightarrow> find_by_regex rt document_text pattern label_part True
               = Inr (if regex document_text \<noteq> []
                      then map (\<lambda>m. Some (m_group0 m)) (regex document_text)
                      else map (\<lambda>l. Some (m_group0 (hd (regex l))))
                             (filter (\<lambda>l. regex l \<noteq> []) (split_nl document_text))))
       \<and> (58 \<in> set label_part \<and> parse_group_num rt label_part = Inr i
           \<longrightarrow> find_by_regex rt document_text pattern label_part find_all
               = Inr (if regex document_text \<noteq> []
                      then map (\<lambda>m. group_choice_spec m i) (regex document_text)
                      else map (\<lambda>l. group_choice_spec (hd (regex l)) i)
                             (filter (\<lambda>l. regex l \<noteq> []) (split_nl document_text))))
       \<and> (re_compile rt' pattern {IGNORECASE, MULTILINE, DOTALL} = Some regex'
             \<and> regex' document_text = regex document_text \<and> regex document_text \<noteq> []
             \<and> 58 \<notin> set label_part
           \<longrightarrow> find_by_regex rt' document_text pattern label_part True
               = find_by_regex rt document_text pattern label_part True)"
  using assms
  by (simp add: find_by_regex_def whole_lines_spec select_all_spec select_lines_spec Let_def)

theorem fallback_finds_match_counterexample:
  "re_compile sample_rt one_at_end {IGNORECASE, MULTILINE, DOTALL} = Some rx_one_at_end
   \<and> rx_one_at_end one_two = []
   \<and> whole_lines rx_one_at_end (split_nl one_two) = [Some [49]]
   \<and> find_by_regex sample_rt one_two one_at_end (asc ''addressee'') True = Inr [Some [49]]"
  by (simp add: compile_one_at_end one_at_end_one_two find_by_regex_def asc_def plain_match_def)

theorem two_tier_fallback_witness:
  "find_by_regex sample_rt one_two one_at_end (asc ''addressee'') True = Inr [Some [49]]
   \<and> find_by_regex sample_rt two_lines (asc ''.+'') (asc ''addressee'') True = Inr [Some two_lines]"
proof -
  have l: "58 \<notin> set (asc ''addressee'')" by (simp add: asc_def)
  have w: "rx_whole two_lines = [plain_match 0 3 two_lines []]"
    by (simp add: rx_whole_def two_lines_def plain_match_def)
  show ?thesis
    using two_tier_fallback[OF compile_one_at_end, of "asc ''addressee''" one_two]
      two_tier_fallback[OF compile_whole, of "asc ''addressee''" two_lines]
    by (simp add: l w one_at_end_one_two plain_match_def)
qed

text \<open>
  C2. First match only for technical parameters. In \<open>RegexParser\<close> the claim does not
  hold: \<open>extract_with_pattern\<close> returns the list of all matches when there are two or
  more, and \<open>extract_technical_params\<close> stores it; the pattern \<open>.+\<close> on the document
  \<open>a\<close> newline \<open>b\<close> stores the list of \<open>a\<close> and \<open>b\<close>. What holds: for a field
  whose pattern has no named group, \<open>RegexParser\<close> stores nothing without a match, the
  one match (when truthy) as a scalar, and the list of all matches in document order
  when there are two or more; \<open>MarkupParser._parse_params\<close> stores for a \<open>@REGEX\<close>
  line the value taken from the first match of the document alone (its whole text, or
  the group the label names), when that value is a non-empty string.
\<close>

theorem technical_param_value:
  assumes "pt_technical_params self = Some fs" and "distinct (map fst fs)"
    and "map_of fs key = Some pinfo"
    and "pi_pattern pinfo = Some p" and "p \<noteq> []" and "\<not> contains (asc ''(?P<'') p"
    and "re_compile rt p (flags_of (case pi_flags pinfo of None \<Rightarrow> [] | Some f \<Rightarrow> f)) = Some rx"
  shows "map_of (extract_technical_params rt self text) key
           = (case rx text of
                [] \<Rightarrow> None
              | [m] \<Rightarrow> if truthy (findall_item m) then Some (findall_item m) else None
              | m # m' # ms \<Rightarrow> Some (PList (map findall_item (m # m' # ms))))
       \<and> (123 \<in> set line0 \<and> 125 \<in> set line0 \<and> param_line line0 = (True, pattern, label)
            \<and> re_compile rt pattern {IGNORECASE, MULTILINE, DOTALL} = Some regex
            \<and> regex document_text = m1 # rest \<and> 58 \<notin> set label
          \<longrightarrow> params_step rt document_text line0 params
              = Inr (if m_group0 m1 \<noteq> [] then AList.update label (PStr (m_group0 m1)) params
                     else params))
       \<and> (123 \<in> set line0 \<and> 125 \<in> set line0 \<and> param_line line0 = (True, pattern, label)
            \<and> re_compile rt pattern {IGNORECASE, MULTILINE, DOTALL} = Some regex
            \<and> regex document_text = m1 # rest \<and> 58 \<in> set label
            \<and> parse_group_num rt label = Inr i
          \<longrightarrow> params_step rt document_text line0 params
              = Inr (case group_choice_spec m1 i of
                       None \<Rightarrow> params
                     | Some v \<Rightarrow>
                         if v \<noteq> []
                         then AList.update (strip (fst (split_colon label))) (PStr v) params
                         else params))"
proof -
  have "map_of (extract_technical_params rt self text) key
           = (if truthy (extract_with_pattern rt text pinfo)
              then Some (extract_with_pattern rt text pinfo) else None)"
    using assms(1,2,3) by (simp add: extract_technical_params_def extract_fields_def fields_lookup)
  then have a: "map_of (extract_technical_params rt self text) key
           = (case rx text of
                [] \<Rightarrow> None
              | [m] \<Rightarrow> if truthy (findall_item m) then Some (findall_item m) else None
              | m # m' # ms \<Rightarrow> Some (PList (map findall_item (m # m' # ms))))"
    by (simp add: ewp_findall[OF assms(4-7)] split: list.splits)
  have b: "123 \<in> set line0 \<and> 125 \<in> set line0 \<and> param_line line0 = (True, pattern, label)
            \<and> re_compile rt pattern {IGNORECASE, MULTILINE, DOTALL} = Some regex
            \<and> regex document_text = m1 # rest \<and> 58 \<notin> set label
          \<longrightarrow> params_step rt document_text line0 params
              = Inr (if m_group0 m1 \<noteq> [] then AList.update label (PStr (m_group0 m1)) params
                     else params)"
    by (simp add: params_step_def find_by_regex_def store_first_def)
  have c: "123 \<in> set line0 \<and> 125 \<in> set line0 \<and> param_line line0 = (True, pattern, label)
            \<and> re_compile rt pattern {IGNORECASE, MULTILINE, DOTALL} = Some regex
            \<and> regex document_text = m1 # rest \<and> 58 \<in> set label
            \<and> parse_group_num rt label = Inr i
          \<longrightarrow> params_step rt document_text line0 params
              = Inr (case group_choice_spec m1 i of
                       None \<Rightarrow> params
                     | Some v \<Rightarrow>
                         if v \<noteq> []
                         then AList.update (strip (fst (split_colon label))) (PStr v) params
                         else params)"
    by (simp add: params_step_def find_by_regex_def select_all_spec store_first_def
          split: option.splits)
  from a b c show ?thesis by blast
qed

theorem all_matches_stored_counterexample:
  "rx_runs two_lines = [plain_match 0 1 [97] [], plain_match 2 3 [98] []]
   \<and> extract_technical_params sample_rt one_param two_lines
       = [(asc ''steel_grade'', PList [PStr [97], PStr [98]])]"
  by (simp add: runs_two_lines extract_technical_params_def extract_fields_def one_param_def
        field_step_def ewp_one_param)

theorem technical_param_value_witness:
  "map_of (extract_technical_params sample_rt one_param two_lines) (asc ''steel_grade'')
     = Some (PList [PStr [97], PStr [98]])
   \<and> params_step sample_rt two_subsections regex_line [] = Inr [(asc ''grade'', PStr [49])]"
proof -
  have c: "re_compile sample_rt (asc ''.+'')
             (flags_of (case pi_flags \<lparr> pi_pattern = Some (asc ''.+''), pi_flags = None \<rparr> of
                          None \<Rightarrow> [] | Some f \<Rightarrow> f)) = Some rx_runs"
    by (simp add: sample_rt_def sample_compile_def flags_of_def asc_def)
  have n: "\<not> contains (asc ''(?P<'') (asc ''.+'')" "asc ''.+'' \<noteq> []"
    by (simp_all add: lib_defs)
  show ?thesis
    using technical_param_value[of one_param
        "[(asc ''steel_grade'', \<lparr> pi_pattern = Some (asc ''.+''), pi_flags = None \<rparr>)]"
        "asc ''steel_grade''" "\<lparr> pi_pattern = Some (asc ''.+''), pi_flags = None \<rparr>"
        "asc ''.+''" sample_rt rx_runs two_lines regex_line "asc ''([0-9])''" "asc ''grade''"
        rx_digit two_subsections "plain_match 0 1 [49] [Some [49]]"
        "[plain_match 3 4 [50] [Some [50]]]" "[]"] c n
    by (simp add: one_param_def runs_two_lines findall_item_def plain_match_def
          param_line_regex_line compile_digit digit_two_subsections)
qed

text \<open>
  C3. Subsection boundary law. The bodies that \<open>_extract_subsections\<close> stores are
  stripped, so concatenating them with the labels does not give back the section text:
  for \<open>1a\<close> newline \<open>2b\<close> with the labels \<open>1\<close> and \<open>2\<close> the stored bodies are \<open>a\<close>
  and \<open>b\<close>, the body of \<open>1\<close> ends before the newline and not at the start of \<open>2\<close>, and
  the concatenation is \<open>1a2b\<close>. What holds, for matches as \<open>finditer\<close> yields them
  (in order, without overlap) and a pattern with a group: the body stored under a
  label is the stripped piece of the section text from the end of the label's match to
  the start offset of the next match, or to the end of the text for the last label (a
  label that repeats keeps its last body); the text before the first match, the matches
  and the unstripped pieces concatenate to the section text exactly; and
  \<open>RegexParser.extract_sections\<close> stores the stripped second group of each match under
  the stripped first.
\<close>

theorem subsection_boundaries:
  assumes "re_compile rt pattern {MULTILINE} = Some regex"
    and "regex section_text = ms"
    and "\<forall>m\<in>set ms. m_groups m \<noteq> []"
    and "wf_matches section_text 0 ms"
  shows "extract_subsections rt section_text pattern
           = Inr (foldl (\<lambda>d (m, b). AList.update (label_key m) (PStr (strip b)) d) []
                    (zip ms (bodies_spec section_text ms)))
       \<and> (distinct (map label_key ms)
          \<longrightarrow> extract_subsections rt section_text pattern
              = Inr (map (\<lambda>(m, b). (label_key m, PStr (strip b)))
                       (zip ms (bodies_spec section_text ms))))
       \<and> reassemble_spec section_text ms (bodies_spec section_text ms) = section_text
       \<and> (m_groups m = Some g1 # Some g2 # gs
          \<longrightarrow> subsection_step m subs
              = Inr (AList.update (PStr (strip g1)) (PStr (strip g2)) subs))"
proof -
  have a: "extract_subsections rt section_text pattern
           = Inr (foldl (\<lambda>d (m, b). AList.update (label_key m) (PStr (strip b)) d) []
                    (zip ms (bodies_spec section_text ms)))"
    using assms(1,2) subsections_loop_spec[OF assms(3)] by (simp add: extract_subsections_def)
  have len: "length (bodies_spec section_text ms) = length ms"
    by (induction ms) simp_all
  have f: "foldl (\<lambda>d (m, b). AList.update (label_key m) (PStr (strip b)) d) [] (zip ms bs)
         = foldl (\<lambda>d (k, v). AList.update k v d) []
             (map (\<lambda>(m, b). (label_key m, PStr (strip b))) (zip ms bs))" for bs
    by (simp add: foldl_map case_prod_unfold)
  have b: "distinct (map label_key ms)
          \<longrightarrow> extract_subsections rt section_text pattern
              = Inr (map (\<lambda>(m, b). (label_key m, PStr (strip b)))
                       (zip ms (bodies_spec section_text ms)))"
  proof
    assume d: "distinct (map label_key ms)"
    have "map fst (map (\<lambda>(m, b). (label_key m, PStr (strip b)))
                     (zip ms (bodies_spec section_text ms))) = map label_key ms"
      using zip_label_keys[OF len] by simp
    with d have "distinct (map fst ([] @ map (\<lambda>(m, b). (label_key m, PStr (strip b)))
                     (zip ms (bodies_spec section_text ms))))"
      by simp
    from foldl_update_distinct[OF this] show "extract_subsections rt section_text pattern
              = Inr (map (\<lambda>(m, b). (label_key m, PStr (strip b)))
                       (zip ms (bodies_spec section_text ms)))"
      unfolding a f by simp
  qed
  have c: "reassemble_spec section_text ms (bodies_spec section_text ms) = section_text"
    using assms(4) by (rule reassemble_bodies)
  have d: "m_groups m = Some g1 # Some g2 # gs
          \<longrightarrow> subsection_step m subs
              = Inr (AList.update (PStr (strip g1)) (PStr (strip g2)) subs)"
    by (simp add: subsection_step_def group_strip_def group_def)
  from a b c d show ?thesis by blast
qed

theorem stripped_bodies_counterexample:
  "rx_digit two_subsections = [label_one, label_two]
   \<and> m_end label_one = 1 \<and> m_start label_two = 3
   \<and> slice two_subsections 1 3 = [97, 10]
   \<and> extract_subsections sample_rt two_subsections (asc ''([0-9])'')
       = Inr [(PStr [49], PStr [97]), (PStr [50], PStr [98])]
   \<and> reassemble_spec two_subsections (rx_digit two_subsections) [ [97], [98]] = [49, 97, 50, 98]
   \<and> reassemble_spec two_subsections (rx_digit two_subsections) [ [97], [98]] \<noteq> two_subsections"
proof -
  have "extract_subsections sample_rt two_subsections (asc ''([0-9])'')
       = Inr [(PStr [49], PStr [97]), (PStr [50], PStr [98])]"
    by (simp add: extract_subsections_def compile_digit digit_labels labels_loop
          del: subsections_loop.simps)
  moreover have "m_end label_one = 1 \<and> m_start label_two = 3"
    by (simp add: plain_match_def label_one_def label_two_def)
  moreover have "slice two_subsections 1 3 = [97, 10]"
    by (simp add: two_subsections_def slice_def)
  moreover have "[49, 97, 50, 98] \<noteq> two_subsections"
    by (simp add: two_subsections_def)
  ultimately show ?thesis
    by (simp add: digit_labels labels_reassemble_stored)
qed

theorem subsection_boundaries_witness:
  "extract_subsections sample_rt two_subsections (asc ''([0-9])'')
     = Inr [(PStr [49], PStr [97]), (PStr [50], PStr [98])]
   \<and> reassemble_spec two_subsections [label_one, label_two] [ [97, 10], [98]] = two_subsections
   \<and> subsection_step (plain_match 0 3 [49, 35, 35] [Some [49], Some [35, 35]]) []
       = Inr [(PStr [49], PStr [35, 35])]"
proof -
  have s: "strip [97, 10] = [97]" "strip [98] = [98]" "strip [49] = [49]" "strip [35, 35] = [35, 35]"
    by (simp_all add: strip_def isspace_ch_def)
  have m: "m_groups (plain_match 0 3 [49, 35, 35] [Some [49], Some [35, 35]])
             = Some [49] # Some [35, 35] # []"
    by (simp add: plain_match_def)
  note t = subsection_boundaries[OF compile_digit digit_labels labels_groups labels_wf,
        of "plain_match 0 3 [49, 35, 35] [Some [49], Some [35, 35]]" "[49]" "[35, 35]" "[]" "[]"]
  show ?thesis
    using t[unfolded labels_bodies] m
    by (simp add: labels_keys s)
qed

text \<open>
  C5. Absent sections and plain bodies. For a section of the pattern file
  (\<open>RegexParser.extract_sections\<close>, a run that does not raise, section names distinct
  as the keys of a dictionary are) the claim holds: a body pattern without a truthy
  result leaves no key, and a body that is a string in which the subsection pattern
  finds nothing is stored as the plain body text, as is the result of a section
  without subsection handling. For a \<open>[SECTION]\<close> block of the markup
  (\<open>MarkupParser._parse_section\<close>) the second half does not hold: a section whose text
  is found is always stored as the dictionary of \<open>full_text\<close> and \<open>subsections\<close>, the
  latter empty when no subsection is found (the block with markers \<open>S\<close>, \<open>E\<close> and
  pattern \<open>([0-9])\<close> on the document \<open>S\<close>, \<open>body\<close>, \<open>E\<close>); a section whose markers
  or text are missing leaves the sections as they were.
\<close>

theorem section_absent_or_plain:
  assumes "extract_sections rt text (Some ss) = Inr res"
    and "distinct (map fst ss)" and "map_of ss name = Some pinfo"
  shows "(\<not> truthy (extract_with_pattern rt text pinfo) \<longrightarrow> map_of res name = None)
       \<and> (extract_with_pattern rt text pinfo = PStr body \<and> body \<noteq> []
            \<and> si_extraction_method pinfo = Some (asc ''structured_subsections'')
            \<and> si_subsection_pattern pinfo = Some sp
            \<and> re_compile rt sp {MULTILINE, DOTALL} = Some rx \<and> rx body = []
          \<longrightarrow> map_of res name = Some (PStr body))
       \<and> (truthy (extract_with_pattern rt text pinfo)
            \<and> (si_extraction_method pinfo \<noteq> Some (asc ''structured_subsections'')
                \<or> si_subsection_pattern pinfo = None)
          \<longrightarrow> map_of res name = Some (extract_with_pattern rt text pinfo))
       \<and> (parse_section rt document_text content section_name sections = Inr sections'
            \<and> section_markers content = (start_marker, end_marker, subsection_pattern)
          \<longrightarrow> (if nonempty start_marker \<and> nonempty end_marker
                   \<and> extract_text_between document_text (the start_marker) (the end_marker) \<noteq> []
                then \<exists>subsections.
                       sections' = AList.update section_name
                         (PDict [(PStr (asc ''full_text''),
                                  PStr (extract_text_between document_text
                                          (the start_marker) (the end_marker))),
                                 (PStr (asc ''subsections''), PDict subsections)]) sections
                       \<and> (if nonempty subsection_pattern
                          then extract_subsections rt
                                 (extract_text_between document_text
                                    (the start_marker) (the end_marker))
                                 (the subsection_pattern) = Inr subsections
                          else subsections = [])
                else sections' = sections))"
proof -
  from assms(1) have f: "fold_err (section_step rt text) ss [] = Inr res"
    by (simp add: extract_sections_def)
  from sections_lookup[OF f assms(2,3)] obtain acc1 acc2 where
    n: "map_of acc1 name = None"
    and s: "section_step rt text (name, pinfo) acc1 = Inr acc2"
    and r: "map_of res name = map_of acc2 name"
    by blast
  have a: "\<not> truthy (extract_with_pattern rt text pinfo) \<longrightarrow> map_of res name = None"
    using s n r by (auto simp: section_step_absent)
  have b: "extract_with_pattern rt text pinfo = PStr body \<and> body \<noteq> []
            \<and> si_extraction_method pinfo = Some (asc ''structured_subsections'')
            \<and> si_subsection_pattern pinfo = Some sp
            \<and> re_compile rt sp {MULTILINE, DOTALL} = Some rx \<and> rx body = []
          \<longrightarrow> map_of res name = Some (PStr body)"
    using s r by (auto simp: section_step_plain update_conv')
  have c: "truthy (extract_with_pattern rt text pinfo)
            \<and> (si_extraction_method pinfo \<noteq> Some (asc ''structured_subsections'')
                \<or> si_subsection_pattern pinfo = None)
          \<longrightarrow> map_of res name = Some (extract_with_pattern rt text pinfo)"
  proof
    assume h: "truthy (extract_with_pattern rt text pinfo)
            \<and> (si_extraction_method pinfo \<noteq> Some (asc ''structured_subsections'')
                \<or> si_subsection_pattern pinfo = None)"
    then have "section_step rt text (name, pinfo) acc1
           = Inr (AList.update name (extract_with_pattern rt text pinfo) acc1)"
      by (intro section_step_simple) simp_all
    with s have "acc2 = AList.update name (extract_with_pattern rt text pinfo) acc1"
      by simp
    with r show "map_of res name = Some (extract_with_pattern rt text pinfo)"
      by (simp add: update_conv')
  qed
  have d: "parse_section rt document_text content section_name sections = Inr sections'
            \<and> section_markers content = (start_marker, end_marker, subsection_pattern)
          \<longrightarrow> (if nonempty start_marker \<and> nonempty end_marker
                   \<and> extract_text_between document_text (the start_marker) (the end_marker) \<noteq> []
                then \<exists>subsections.
                       sections' = AList.update section_name
                         (PDict [(PStr (asc ''full_text''),
                                  PStr (extract_text_between document_text
                                          (the start_marker) (the end_marker))),
                                 (PStr (asc ''subsections''), PDict subsections)]) sections
                       \<and> (if nonempty subsection_pattern
                          then extract_subsections rt
                                 (extract_text_between document_text
                                    (the start_marker) (the end_marker))
                                 (the subsection_pattern) = Inr subsections
                          else subsections = [])
                else sections' = sections)"
    by (auto simp: parse_section_def Let_def split: sum.splits if_splits)
  from a b c d show ?thesis by blast
qed

theorem markup_section_keeps_subsections_key_counterexample:
  "extract_text_between section_doc (asc ''S'') (asc ''E'') = asc ''body''
   \<and> extract_subsections sample_rt (asc ''body'') (asc ''([0-9])'') = Inr []
   \<and> parse_section sample_rt section_doc section_block (asc ''notes'') []
       = Inr [(asc ''notes'', PDict [(PStr (asc ''full_text''), PStr (asc ''body'')),
                                     (PStr (asc ''subsections''), PDict [])])]"
proof -
  have e: "extract_subsections sample_rt (asc ''body'') (asc ''([0-9])'') = Inr []"
    by (simp add: extract_subsections_def compile_digit no_digit_in_body)
  have b: "asc ''body'' \<noteq> []" by (simp add: asc_def)
  show ?thesis
    by (simp add: section_doc_between e parse_section_def nonempty_def Let_def asc_nonempty)
qed

theorem section_absent_or_plain_witness:
  "extract_sections sample_rt (asc ''body'')
       (Some [(asc ''notes'', whole_section (Some (asc ''structured_subsections''))
                                 (Some (asc ''([0-9])'')))])
     = Inr [(asc ''notes'', PStr (asc ''body''))]
   \<and> extract_sections sample_rt []
       (Some [(asc ''notes'', whole_section (Some (asc ''structured_subsections''))
                                 (Some (asc ''([0-9])'')))])
     = Inr []
   \<and> map_of [(asc ''notes'', PStr (asc ''body''))] (asc ''notes'') = Some (PStr (asc ''body''))
   \<and> parse_section sample_rt section_doc section_block (asc ''notes'') []
       = Inr [(asc ''notes'', PDict [(PStr (asc ''full_text''), PStr (asc ''body'')),
                                     (PStr (asc ''subsections''), PDict [])])]"
proof -
  let ?pinfo = "whole_section (Some (asc ''structured_subsections'')) (Some (asc ''([0-9])''))"
  have b: "asc ''body'' \<noteq> []" by (simp add: asc_def)
  have m: "si_extraction_method ?pinfo = Some (asc ''structured_subsections'')"
    "si_subsection_pattern ?pinfo = Some (asc ''([0-9])'')"
    by (simp_all add: whole_section_def)
  have x1: "extract_sections sample_rt (asc ''body'') (Some [(asc ''notes'', ?pinfo)])
     = Inr [(asc ''notes'', PStr (asc ''body''))]"
    by (simp add: extract_sections_def section_step_plain[OF ewp_whole_section(1)[OF b] b m compile_digit no_digit_in_body])
  have x2: "extract_sections sample_rt [] (Some [(asc ''notes'', ?pinfo)]) = Inr []"
    by (simp add: extract_sections_def section_step_absent ewp_whole_section(2))
  have p: "parse_section sample_rt section_doc section_block (asc ''notes'') []
       = Inr [(asc ''notes'', PDict [(PStr (asc ''full_text''), PStr (asc ''body'')),
                                     (PStr (asc ''subsections''), PDict [])])]"
    by (simp add: section_doc_between parse_section_def nonempty_def Let_def asc_nonempty
          extract_subsections_def compile_digit no_digit_in_body)
  note t1 = section_absent_or_plain[OF x1, where name = "asc ''notes''" and pinfo = ?pinfo
      and body = "asc ''body''" and sp = "asc ''([0-9])''" and rx = rx_digit
      and document_text = section_doc and content = section_block
      and section_name = "asc ''notes''" and sections = "[]"
      and start_marker = "Some (asc ''S'')" and end_marker = "Some (asc ''E'')"
      and subsection_pattern = "Some (asc ''([0-9])'')"]
  note t2 = section_absent_or_plain[OF x2, where name = "asc ''notes''" and pinfo = ?pinfo]
  show ?thesis
    using t1 t2 x1 x2 p
    by (simp add: ewp_whole_section b m compile_digit no_digit_in_body)
qed

text \<open>
  C10. Empty captures. A pattern that matches with an empty selected value does not
  always leave its field out: \<open>#*\<close> has two matches in the text \<open>a\<close>, both empty, and
  the field is stored with the list of the two empty strings. What holds: when the
  pattern of a metadata or technical-parameter field (a pattern without a named group)
  has exactly one match and the value selected from it, the whole match or its one
  group, is the empty string, \<open>extract_with_pattern\<close> returns the empty string and the
  field is left out: the result is the result of the same fields with a descriptor that
  does not match in its place, and the result of the fields without it, and a key that
  no other field carries is not in the map.
\<close>

theorem empty_capture_omitted:
  assumes "pi_pattern pinfo = Some p" and "p \<noteq> []" and "\<not> contains (asc ''(?P<'') p"
    and "re_compile rt p (flags_of (case pi_flags pinfo of None \<Rightarrow> [] | Some f \<Rightarrow> f)) = Some rx"
    and "rx text = [m]" and "findall_item m = PStr []"
    and "extract_with_pattern rt text unmatched = PNone"
  shows "extract_with_pattern rt text pinfo = PStr []
       \<and> extract_fields rt text (Some (fs1 @ (key, pinfo) # fs2))
           = extract_fields rt text (Some (fs1 @ (key, unmatched) # fs2))
       \<and> extract_fields rt text (Some (fs1 @ (key, pinfo) # fs2))
           = extract_fields rt text (Some (fs1 @ fs2))
       \<and> (key \<notin> fst ` set (fs1 @ fs2)
          \<longrightarrow> map_of (extract_fields rt text (Some (fs1 @ (key, pinfo) # fs2))) key = None)
       \<and> (pt_metadata self = Some (fs1 @ (key, pinfo) # fs2)
          \<longrightarrow> extract_metadata rt self text = extract_fields rt text (Some (fs1 @ fs2)))
       \<and> (pt_technical_params self = Some (fs1 @ (key, pinfo) # fs2)
          \<longrightarrow> extract_technical_params rt self text = extract_fields rt text (Some (fs1 @ fs2)))"
proof -
  have e: "extract_with_pattern rt text pinfo = PStr []"
    using ewp_findall[OF assms(1-4), of "text"] assms(5,6) by simp
  then have f: "\<not> truthy (extract_with_pattern rt text pinfo)" by simp
  have u: "\<not> truthy (extract_with_pattern rt text unmatched)" using assms(7) by simp
  have s: "extract_fields rt text (Some (fs1 @ (key, pinfo) # fs2))
           = extract_fields rt text (Some (fs1 @ fs2))"
    using f by (rule fields_skip)
  have s': "extract_fields rt text (Some (fs1 @ (key, unmatched) # fs2))
           = extract_fields rt text (Some (fs1 @ fs2))"
    using u by (rule fields_skip)
  have n: "key \<notin> fst ` set (fs1 @ fs2)
          \<longrightarrow> map_of (extract_fields rt text (Some (fs1 @ (key, pinfo) # fs2))) key = None"
    unfolding s using fields_no_key by blast
  show ?thesis
    using e s s' n by (simp add: extract_metadata_def extract_technical_params_def)
qed

theorem empty_matches_stored_counterexample:
  "rx_hashes [97] = [plain_match 0 0 [] [], plain_match 1 1 [] []]
   \<and> findall_item (plain_match 0 0 [] []) = PStr []
   \<and> findall_item (plain_match 1 1 [] []) = PStr []
   \<and> extract_metadata sample_rt hash_meta [97] = [(asc ''date'', PList [PStr [], PStr []])]"
  by (simp add: hashes_in_a findall_item_def plain_match_def extract_metadata_def
        extract_fields_def field_step_def hash_meta_def ewp_hash_meta)

theorem empty_capture_omitted_witness:
  "rx_end [97, 98] = [plain_match 2 2 [] []]
   \<and> findall_item (plain_match 2 2 [] []) = PStr []
   \<and> extract_fields sample_rt [97, 98]
        (Some [(asc ''date'', empty_field), (asc ''name'', line_field)])
       = [(asc ''name'', PStr [97, 98])]
   \<and> extract_fields sample_rt [97, 98]
        (Some [(asc ''date'', digit_field), (asc ''name'', line_field)])
       = [(asc ''name'', PStr [97, 98])]"
proof -
  have c: "re_compile sample_rt [92, 90]
             (flags_of (case pi_flags empty_field of None \<Rightarrow> [] | Some f \<Rightarrow> f)) = Some rx_end"
    by (simp add: sample_rt_def sample_compile_def asc_def)
  have p: "pi_pattern empty_field = Some [92, 90]" "\<not> contains (asc ''(?P<'') [92, 90]"
    by (simp_all add: empty_field_def lib_defs)
  have r: "rx_end [97, 98] = [plain_match 2 2 [] []]"
    by (simp add: rx_end_def plain_match_def)
  have i: "findall_item (plain_match 2 2 [] []) = PStr []"
    by (simp add: findall_item_def plain_match_def)
  have x: "extract_fields sample_rt [97, 98] (Some ([] @ [(asc ''name'', line_field)]))
             = [(asc ''name'', PStr [97, 98])]"
    by (simp add: extract_fields_def field_step_def sample_fields)
  note t = empty_capture_omitted[OF p(1) _ p(2) c r i sample_fields(1),
      where ?fs1.0 = "[]" and key = "asc ''date''" and ?fs2.0 = "[(asc ''name'', line_field)]"
        and self = one_param]
  from t have "extract_fields sample_rt [97, 98]
        (Some ([] @ (asc ''date'', empty_field) # [(asc ''name'', line_field)]))
       = extract_fields sample_rt [97, 98]
           (Some ([] @ (asc ''date'', digit_field) # [(asc ''name'', line_field)]))"
    and "extract_fields sample_rt [97, 98]
        (Some ([] @ (asc ''date'', empty_field) # [(asc ''name'', line_field)]))
       = extract_fields sample_rt [97, 98] (Some ([] @ [(asc ''name'', line_field)]))"
    by blast+
  with x r i show ?thesis by simp
qed

end
